theory Spec2Isabelle
  imports Complex_Main "HOL-Library.Sublist"
begin

section \<open>Python values used by the task network\<close>

text \<open>
  Exceptions are values. Every \<^verbatim>\<open>raise\<close> that can leave a function of the chess
  assistant is one of these; a function that can raise returns \<open>error + 'a\<close>.
\<close>

datatype error = ValueError | KeyError | IndexError | AttributeError | AssertionError | EngineError

text \<open>
  Strings are lists of 8-bit characters; the text handled here (queries, notation,
  templates) is ASCII. \<open>lower\<close>, \<open>isalpha\<close>, \<open>isdigit\<close> and \<open>isspace\<close> are
  given by their ASCII tables.
\<close>

definition ascii_upper :: string where
  "ascii_upper = ''ABCDEFGHIJKLMNOPQRSTUVWXYZ''"

definition ascii_lower :: string where
  "ascii_lower = ''abcdefghijklmnopqrstuvwxyz''"

definition ascii_digits :: string where
  "ascii_digits = ''0123456789''"

definition ascii_space :: string where
  "ascii_space = [CHR 0x09, CHR 0x0A, CHR 0x0B, CHR 0x0C, CHR 0x0D,
                  CHR 0x1C, CHR 0x1D, CHR 0x1E, CHR 0x1F, CHR 0x20]"

definition lower_char :: "char \<Rightarrow> char" where
  "lower_char c = (case map_of (zip ascii_upper ascii_lower) c of Some d \<Rightarrow> d | None \<Rightarrow> c)"

definition lower :: "string \<Rightarrow> string" where
  "lower s = map lower_char s"

definition isalpha :: "char \<Rightarrow> bool" where
  "isalpha c = (c \<in> set (ascii_upper @ ascii_lower))"

definition isdigit :: "char \<Rightarrow> bool" where
  "isdigit c = (c \<in> set ascii_digits)"

definition isspace :: "char \<Rightarrow> bool" where
  "isspace c = (c \<in> set ascii_space)"

text \<open>\<^verbatim>\<open>sub in s\<close>: \<open>sub\<close> occurs in \<open>s\<close> as a contiguous block.\<close>

fun str_contains :: "string \<Rightarrow> string \<Rightarrow> bool" where
  "str_contains sub [] = (sub = [])"
| "str_contains sub (c # cs) = (prefix sub (c # cs) \<or> str_contains sub cs)"

text \<open>\<^verbatim>\<open>s.strip()\<close> and \<^verbatim>\<open>s.split()\<close> (no separator: runs of whitespace).\<close>

definition strip :: "string \<Rightarrow> string" where
  "strip s = rev (dropWhile isspace (rev (dropWhile isspace s)))"

fun split_ws :: "string \<Rightarrow> string \<Rightarrow> string list" where
  "split_ws [] w = (if w = [] then [] else [w])"
| "split_ws (c # cs) w =
     (if isspace c then (if w = [] then split_ws cs [] else w # split_ws cs [])
      else split_ws cs (w @ [c]))"

definition split :: "string \<Rightarrow> string list" where
  "split s = split_ws s []"

text \<open>
  \<^verbatim>\<open>int(s)\<close> on a string of ASCII characters. The whitespace dropped on both sides
  is the one of the C locale (tab to carriage return, and the space: the separators
  \<open>0x1C\<close> to \<open>0x1F\<close> that \<^verbatim>\<open>str.strip\<close> drops are refused here); one sign is
  allowed; then decimal digits, with single underscores between digits; more than
  4300 digits are refused. \<open>None\<close> is the \<^verbatim>\<open>ValueError\<close> that \<^verbatim>\<open>int\<close> raises on
  anything else.
\<close>

definition int_space :: string where
  "int_space = [CHR 0x09, CHR 0x0A, CHR 0x0B, CHR 0x0C, CHR 0x0D, CHR 0x20]"

definition int_strip :: "string \<Rightarrow> string" where
  "int_strip s =
     rev (dropWhile (\<lambda>c. c \<in> set int_space) (rev (dropWhile (\<lambda>c. c \<in> set int_space) s)))"

definition int_max_str_digits :: nat where
  "int_max_str_digits = 4300"

definition digit_val :: "char \<Rightarrow> int" where
  "digit_val c = int (length (takeWhile (\<lambda>d. d \<noteq> c) ascii_digits))"

fun digits_value :: "string \<Rightarrow> bool \<Rightarrow> int \<Rightarrow> int option" where
  "digits_value [] prev acc = (if prev then Some acc else None)"
| "digits_value (c # cs) prev acc =
     (if isdigit c then digits_value cs True (acc * 10 + digit_val c)
      else if c = CHR ''_'' \<and> prev then digits_value cs False acc
      else None)"

definition unsigned_value :: "string \<Rightarrow> int option" where
  "unsigned_value ds =
     (if length (filter isdigit ds) > int_max_str_digits then None
      else digits_value ds False 0)"

definition py_int :: "string \<Rightarrow> int option" where
  "py_int s =
     (case int_strip s of
        [] \<Rightarrow> None
      | c # cs \<Rightarrow>
          if c = CHR ''-'' then map_option uminus (unsigned_value cs)
          else if c = CHR ''+'' then unsigned_value cs
          else unsigned_value (c # cs))"

text \<open>
  \<^verbatim>\<open>sorted(xs, key=k, reverse=True)\<close>: descending by key, and stable (elements with
  equal keys keep their order in \<open>xs\<close>, also under \<^verbatim>\<open>reverse=True\<close>).
\<close>

definition sorted_desc :: "('a \<Rightarrow> int) \<Rightarrow> 'a list \<Rightarrow> 'a list" where
  "sorted_desc k xs = sort_key (\<lambda>x. - k x) xs"

section \<open>The rules collaborator and the evaluation collaborator\<close>

text \<open>
  The board is the data the assistant reads from a \<^verbatim>\<open>chess.Board\<close>: the piece on a
  square, the side to move and the two move counters. Squares are numbered as the
  rules library numbers them: \<open>a1 = 0\<close>, \<open>b1 = 1\<close>, ..., \<open>h8 = 63\<close>.
\<close>

datatype color = White | Black

datatype piece_type = Pawn | Knight | Bishop | Rook | Queen | King

datatype piece = Piece (piece_type: piece_type) (color: color)

type_synonym square = nat

record move =
  from_square :: square
  to_square :: square
  promotion :: "piece_type option"

record board =
  piece_at :: "square \<Rightarrow> piece option"
  turn :: color
  fullmove_number :: int
  halfmove_clock :: int

definition SQUARES :: "square list" where
  "SQUARES = [0 ..< 64]"

definition B1 :: square where "B1 = 1"
definition C1 :: square where "C1 = 2"
definition E1 :: square where "E1 = 4"
definition F1 :: square where "F1 = 5"
definition G1 :: square where "G1 = 6"
definition D4 :: square where "D4 = 27"
definition E4 :: square where "E4 = 28"
definition D5 :: square where "D5 = 35"
definition E5 :: square where "E5 = 36"
definition B8 :: square where "B8 = 57"
definition C8 :: square where "C8 = 58"
definition E8 :: square where "E8 = 60"
definition F8 :: square where "F8 = 61"
definition G8 :: square where "G8 = 62"

definition square_rank :: "square \<Rightarrow> int" where
  "square_rank sq = int (sq div 8)"

text \<open>\<^verbatim>\<open>bin(board.occupied).count('1')\<close>: the number of occupied squares.\<close>

definition occupied_count :: "board \<Rightarrow> int" where
  "occupied_count b = int (length (filter (\<lambda>sq. piece_at b sq \<noteq> None) SQUARES))"

text \<open>\<^verbatim>\<open>board.pieces(piece_type, color)\<close>: the squares holding such a piece, ascending.\<close>

definition pieces :: "board \<Rightarrow> piece_type \<Rightarrow> color \<Rightarrow> square list" where
  "pieces b pt c = filter (\<lambda>sq. piece_at b sq = Some (Piece pt c)) SQUARES"

text \<open>\<^verbatim>\<open>board.king(color)\<close>: the square of that side's king, \<open>None\<close> without one.\<close>

definition king :: "board \<Rightarrow> color \<Rightarrow> square option" where
  "king b c = (case rev (pieces b King c) of [] \<Rightarrow> None | sq # _ \<Rightarrow> Some sq)"

text \<open>
  One line of an engine analysis (an \<^verbatim>\<open>InfoDict\<close>): the keys \<^verbatim>\<open>"pv"\<close> and
  \<^verbatim>\<open>"score"\<close> may be absent. The assistant only ever passes a score's relative
  value to \<^verbatim>\<open>str\<close>, so a score is that string (\<open>''+35''\<close>, \<open>''-120''\<close>, \<open>''#+3''\<close>).
\<close>

record info =
  pv :: "move list option"
  score :: "string option"

text \<open>
  A call of \<^verbatim>\<open>engine.analyse\<close>: the board, the time budget in milliseconds and
  \<^verbatim>\<open>multipv\<close>. The engine is a process outside the program; its history is the
  list of the calls made to it, oldest first, kept in \<open>engine_log\<close> beside the three
  tiers of the task network.
\<close>

datatype engine_call = Analyse board nat "nat option"

text \<open>
  What the assistant does not implement: the operations of the rules library, and the
  engine as an oracle that answers a call knowing the calls before it. \<open>None\<close> and
  \<open>Inl\<close> are the exceptions these operations raise.
\<close>

record collaborators =
  board_of_fen :: "string \<Rightarrow> board option"
  legal_moves :: "board \<Rightarrow> move list"
  is_capture :: "board \<Rightarrow> move \<Rightarrow> bool"
  push :: "board \<Rightarrow> move \<Rightarrow> board"
  is_check :: "board \<Rightarrow> bool"
  san :: "board \<Rightarrow> move \<Rightarrow> error + string"
  parse_san :: "board \<Rightarrow> string \<Rightarrow> move option"
  from_uci :: "string \<Rightarrow> move option"
  uci :: "move \<Rightarrow> string"
  has_castling_rights :: "board \<Rightarrow> color \<Rightarrow> bool"
  analyse :: "engine_call list \<Rightarrow> board \<Rightarrow> nat \<Rightarrow> error + info"
  analyse_multipv :: "engine_call list \<Rightarrow> board \<Rightarrow> nat \<Rightarrow> nat \<Rightarrow> error + info list"

section \<open>Goals and the task network\<close>

record chess_goal =
  description :: string
  priority :: int
  move_sequence :: "string list"
  completed :: bool
  progress :: real

definition ChessGoal :: "string \<Rightarrow> int \<Rightarrow> string list option \<Rightarrow> chess_goal" where
  "ChessGoal d p ms =
     \<lparr>description = d, priority = p,
      move_sequence = (case ms of None \<Rightarrow> [] | Some m \<Rightarrow> m),
      completed = False, progress = 0\<rparr>"

record task_network =
  long_term_goals :: "chess_goal list"
  medium_term_goals :: "chess_goal list"
  short_term_goals :: "chess_goal list"
  engine_log :: "engine_call list"

definition engine_analyse ::
  "collaborators \<Rightarrow> task_network \<Rightarrow> board \<Rightarrow> nat \<Rightarrow> (error + info) \<times> task_network" where
  "engine_analyse c s b t =
     (analyse c (engine_log s) b t, s\<lparr>engine_log := engine_log s @ [Analyse b t None]\<rparr>)"

definition engine_analyse_multipv ::
  "collaborators \<Rightarrow> task_network \<Rightarrow> board \<Rightarrow> nat \<Rightarrow> nat
     \<Rightarrow> (error + info list) \<times> task_network" where
  "engine_analyse_multipv c s b t n =
     (analyse_multipv c (engine_log s) b t n,
      s\<lparr>engine_log := engine_log s @ [Analyse b t (Some n)]\<rparr>)"

section \<open>Position Analyzer\<close>

text \<open>
  \<^verbatim>\<open>_identify_medium_term_goals\<close>. The three heuristics append to the medium-term
  tier in this order: centre control, development (only up to move 10), castling.
\<close>

definition center_squares :: "square list" where
  "center_squares = [E4, D4, E5, D5]"

definition controlled_center :: "board \<Rightarrow> nat" where
  "controlled_center b =
     length (filter (\<lambda>sq. case piece_at b sq of None \<Rightarrow> False
                                | Some p \<Rightarrow> color p = turn b) center_squares)"

definition starting_squares :: "color \<Rightarrow> square list" where
  "starting_squares c = (case c of White \<Rightarrow> [B1, G1, C1, F1] | Black \<Rightarrow> [B8, G8, C8, F8])"

definition developed_pieces :: "board \<Rightarrow> nat" where
  "developed_pieces b =
     length (filter (\<lambda>sq. sq \<notin> set (starting_squares (turn b)))
               (concat (map (\<lambda>pt. pieces b pt (turn b)) [Knight, Bishop])))"

definition append_medium :: "chess_goal \<Rightarrow> task_network \<Rightarrow> task_network" where
  "append_medium g s = s\<lparr>medium_term_goals := medium_term_goals s @ [g]\<rparr>"

definition append_long :: "chess_goal \<Rightarrow> task_network \<Rightarrow> task_network" where
  "append_long g s = s\<lparr>long_term_goals := long_term_goals s @ [g]\<rparr>"

definition append_short :: "chess_goal \<Rightarrow> task_network \<Rightarrow> task_network" where
  "append_short g s = s\<lparr>short_term_goals := short_term_goals s @ [g]\<rparr>"

definition identify_medium_term_goals ::
  "collaborators \<Rightarrow> board \<Rightarrow> task_network \<Rightarrow> task_network" where
  "identify_medium_term_goals c b s =
     (let s1 = (if controlled_center b < 2
                then append_medium (ChessGoal ''Control the center with pawns or pieces'' 5 None) s
                else s);
          s2 = (if fullmove_number b \<le> 10 \<and> developed_pieces b < 4
                then append_medium (ChessGoal ''Develop minor pieces'' 4 None) s1
                else s1);
          king_square = king b (turn b)
      in if ((turn b = White \<and> king_square = Some E1) \<or> (turn b = Black \<and> king_square = Some E8))
            \<and> has_castling_rights c b (turn b)
         then append_medium (ChessGoal ''Castle to safety'' 6 None) s2
         else s2)"

text \<open>\<^verbatim>\<open>_count_material\<close>: the king is in the table and not in the sum.\<close>

definition material_values :: "(piece_type \<times> int) list" where
  "material_values = [(Pawn, 1), (Knight, 3), (Bishop, 3), (Rook, 5), (Queen, 9), (King, 0)]"

definition value_of :: "piece_type \<Rightarrow> int" where
  "value_of pt = (case map_of material_values pt of None \<Rightarrow> 0 | Some v \<Rightarrow> v)"

definition count_material :: "board \<Rightarrow> color \<Rightarrow> int" where
  "count_material b c =
     sum_list (map (\<lambda>pt. int (length (pieces b pt c)) * value_of pt)
                 [Pawn, Knight, Bishop, Rook, Queen])"

text \<open>
  \<^verbatim>\<open>_identify_long_term_goals\<close>. The only statement of the body that can raise is
  \<^verbatim>\<open>int(evaluation)\<close>, inside \<^verbatim>\<open>try ... except ValueError: pass\<close>: a string that
  is no integer adds no goal.
\<close>

datatype phase = Opening | Middlegame | Endgame

definition game_phase :: "board \<Rightarrow> phase" where
  "game_phase b =
     (let total_pieces = occupied_count b
      in if total_pieces > 24 then Opening
         else if total_pieces > 10 then Middlegame
         else Endgame)"

definition identify_long_term_goals :: "board \<Rightarrow> string \<Rightarrow> task_network \<Rightarrow> task_network" where
  "identify_long_term_goals b evaluation s =
     (case game_phase b of
        Opening \<Rightarrow>
          append_long (ChessGoal ''Ensure king safety'' 7 None)
            (append_long (ChessGoal ''Develop pieces and control the center'' 8 None) s)
      | Middlegame \<Rightarrow>
          (let white_material = count_material b White;
               black_material = count_material b Black;
               advantage0 = white_material - black_material;
               advantage = (if turn b = White then advantage0 else - advantage0)
           in if advantage > 3
              then append_long
                     (ChessGoal ''Trade pieces to simplify into a winning endgame'' 8 None) s
              else if advantage < - 3
              then append_long
                     (ChessGoal ''Create complications and tactical opportunities'' 8 None) s
              else append_long
                     (ChessGoal
                        ''Improve piece positioning and create weaknesses in opponent's camp''
                        7 None) s)
      | Endgame \<Rightarrow>
          (let s1 = append_long (ChessGoal ''Activate king and create passed pawns'' 8 None) s
           in case py_int evaluation of
                None \<Rightarrow> s1
              | Some eval_value \<Rightarrow>
                  if eval_value > 200
                  then append_long (ChessGoal ''Exchange pieces but not pawns'' 7 None) s1
                  else s1))"

text \<open>
  \<^verbatim>\<open>analyze_position\<close>. The loop over the engine's lines reads \<^verbatim>\<open>pv_info["pv"][0]\<close>
  and \<^verbatim>\<open>pv_info["score"]\<close> before it asks for the move's notation; \<open>i\<close> is the
  index \<^verbatim>\<open>enumerate\<close> gives. A raise leaves the tiers as they are at that moment.
\<close>

fun short_term_loop ::
  "collaborators \<Rightarrow> board \<Rightarrow> nat \<Rightarrow> info list \<Rightarrow> task_network
     \<Rightarrow> (error + unit) \<times> task_network" where
  "short_term_loop c b i [] s = (Inr (), s)"
| "short_term_loop c b i (pv_info # rest) s =
     (case pv pv_info of
        None \<Rightarrow> (Inl KeyError, s)
      | Some [] \<Rightarrow> (Inl IndexError, s)
      | Some (m # _) \<Rightarrow>
          (case score pv_info of
             None \<Rightarrow> (Inl KeyError, s)
           | Some eval_score \<Rightarrow>
               (case san c b m of
                  Inl e \<Rightarrow> (Inl e, s)
                | Inr move_san \<Rightarrow>
                    short_term_loop c b (Suc i) rest
                      (append_short
                         (ChessGoal (''Play '' @ move_san) (3 - int i) (Some [uci c m])) s))))"

type_synonym analysis = "chess_goal list \<times> chess_goal list \<times> chess_goal list"

definition clear_goals :: "task_network \<Rightarrow> task_network" where
  "clear_goals s = s\<lparr>long_term_goals := [], medium_term_goals := [], short_term_goals := []\<rparr>"

definition analyze_position ::
  "collaborators \<Rightarrow> task_network \<Rightarrow> string \<Rightarrow> (error + analysis) \<times> task_network" where
  "analyze_position c s fen =
     (case board_of_fen c fen of
        None \<Rightarrow> (Inl ValueError, s)
      | Some b \<Rightarrow>
          (case engine_analyse_multipv c (clear_goals s) b 200 3 of
             (Inl e, s1) \<Rightarrow> (Inl e, s1)
           | (Inr result, s1) \<Rightarrow>
               (case short_term_loop c b 0 result s1 of
                  (Inl e, s2) \<Rightarrow> (Inl e, s2)
                | (Inr _, s2) \<Rightarrow>
                    (let s3 = identify_medium_term_goals c b s2
                     in case result of
                          [] \<Rightarrow> (Inl IndexError, s3)
                        | r0 # _ \<Rightarrow>
                            (case score r0 of
                               None \<Rightarrow> (Inl KeyError, s3)
                             | Some ev \<Rightarrow>
                                 (let s4 = identify_long_term_goals b ev s3
                                  in (Inr (long_term_goals s4, medium_term_goals s4,
                                           short_term_goals s4), s4)))))))"

section \<open>Planner\<close>

text \<open>
  A plan is a dictionary whose keys \<^verbatim>\<open>"immediate_action"\<close> and \<^verbatim>\<open>"reasoning"\<close> are
  absent from the two sentinel plans: \<open>None\<close> is the absent key, and reading it is
  a \<^verbatim>\<open>KeyError\<close>.
\<close>

record plan =
  p_description :: string
  p_immediate_action :: "string option"
  p_moves :: "string list"
  p_reasoning :: "string option"

definition getitem :: "'a option \<Rightarrow> error + 'a" where
  "getitem v = (case v of None \<Rightarrow> Inl KeyError | Some x \<Rightarrow> Inr x)"

definition generate_reasoning :: "string \<Rightarrow> string \<Rightarrow> string" where
  "generate_reasoning strategy mv =
     ''This move supports our strategy to '' @ lower strategy
       @ '' by making immediate progress.''"

definition no_clear_plan :: plan where
  "no_clear_plan =
     \<lparr>p_description = ''No clear plan identified'', p_immediate_action = None,
      p_moves = [], p_reasoning = None\<rparr>"

definition no_clear_moves :: plan where
  "no_clear_moves =
     \<lparr>p_description = ''No clear moves identified'', p_immediate_action = None,
      p_moves = [], p_reasoning = None\<rparr>"

text \<open>
  \<^verbatim>\<open>get_best_plan\<close>. \<^verbatim>\<open>sorted(immediate_moves, ...)[0]\<close> is an \<^verbatim>\<open>IndexError\<close> on an
  empty list; the test \<^verbatim>\<open>if immediate_moves\<close> stands before it.
\<close>

definition get_best_plan :: "task_network \<Rightarrow> error + plan" where
  "get_best_plan s =
     (let all_goals = long_term_goals s @ medium_term_goals s @ short_term_goals s;
          sorted_goals = sorted_desc priority all_goals
      in if sorted_goals = [] then Inr no_clear_plan
         else
           (let immediate_moves = filter (\<lambda>g. move_sequence g \<noteq> []) (short_term_goals s)
            in if immediate_moves \<noteq> []
               then (case sorted_desc priority immediate_moves of
                       [] \<Rightarrow> Inl IndexError
                     | top_move # _ \<Rightarrow>
                         (let strategy = (case long_term_goals s of
                                            [] \<Rightarrow> ''No specific strategy''
                                          | g # _ \<Rightarrow> description g)
                          in Inr \<lparr>p_description = strategy,
                                  p_immediate_action = Some (description top_move),
                                  p_moves = move_sequence top_move,
                                  p_reasoning =
                                    Some (generate_reasoning strategy (description top_move))\<rparr>))
               else Inr no_clear_moves))"

section \<open>Tactic Scanner\<close>

record chess_tactic =
  t_description :: string
  t_moves :: "string list"
  t_priority :: int

text \<open>\<^verbatim>\<open>_piece_name\<close>; \<open>None\<close> is the empty square.\<close>

definition names :: "piece_type \<Rightarrow> string" where
  "names pt =
     (case pt of Pawn \<Rightarrow> ''pawn'' | Knight \<Rightarrow> ''knight'' | Bishop \<Rightarrow> ''bishop''
      | Rook \<Rightarrow> ''rook'' | Queen \<Rightarrow> ''queen'' | King \<Rightarrow> ''king'')"

definition piece_name :: "piece option \<Rightarrow> string" where
  "piece_name p =
     (case p of
        None \<Rightarrow> ''empty square''
      | Some q \<Rightarrow> (if color q = White then ''white'' else ''black'') @ '' '' @ names (piece_type q))"

text \<open>
  The first loop of \<^verbatim>\<open>_identify_tactics\<close>: every legal move that leaves the opponent
  in check on a copy of the board.
\<close>

definition check_entry :: "collaborators \<Rightarrow> move \<Rightarrow> string \<Rightarrow> chess_tactic" where
  "check_entry c m s =
     \<lparr>t_description = ''Check with '' @ s, t_moves = [uci c m], t_priority = 5\<rparr>"

fun check_pass ::
  "collaborators \<Rightarrow> board \<Rightarrow> move list \<Rightarrow> chess_tactic list \<Rightarrow> error + chess_tactic list" where
  "check_pass c b [] tactics = Inr tactics"
| "check_pass c b (m # ms) tactics =
     (if is_check c (push c b m)
      then (case san c b m of
              Inl e \<Rightarrow> Inl e
            | Inr s \<Rightarrow> check_pass c b ms (tactics @ [check_entry c m s]))
      else check_pass c b ms tactics)"

text \<open>
  The second loop: every legal capture whose destination square holds a piece worth
  at least the capturing piece. \<^verbatim>\<open>attacker.piece_type\<close> on an empty origin square
  is an \<^verbatim>\<open>AttributeError\<close>.
\<close>

definition capture_entry :: "collaborators \<Rightarrow> move \<Rightarrow> piece \<Rightarrow> string \<Rightarrow> chess_tactic" where
  "capture_entry c m captured_piece s =
     \<lparr>t_description = ''Capture '' @ piece_name (Some captured_piece) @ '' with '' @ s,
      t_moves = [uci c m],
      t_priority = value_of (piece_type captured_piece)\<rparr>"

fun capture_pass ::
  "collaborators \<Rightarrow> board \<Rightarrow> move list \<Rightarrow> chess_tactic list \<Rightarrow> error + chess_tactic list" where
  "capture_pass c b [] tactics = Inr tactics"
| "capture_pass c b (m # ms) tactics =
     (if is_capture c b m
      then (case piece_at b (to_square m) of
              None \<Rightarrow> capture_pass c b ms tactics
            | Some captured_piece \<Rightarrow>
                (case piece_at b (from_square m) of
                   None \<Rightarrow> Inl AttributeError
                 | Some attacker \<Rightarrow>
                     if value_of (piece_type captured_piece) \<ge> value_of (piece_type attacker)
                     then (case san c b m of
                             Inl e \<Rightarrow> Inl e
                           | Inr s \<Rightarrow>
                               capture_pass c b ms
                                 (tactics @ [capture_entry c m captured_piece s]))
                     else capture_pass c b ms tactics))
      else capture_pass c b ms tactics)"

definition identify_tactics :: "collaborators \<Rightarrow> board \<Rightarrow> error + chess_tactic list" where
  "identify_tactics c b =
     (case check_pass c b (legal_moves c b) [] of
        Inl e \<Rightarrow> Inl e
      | Inr t1 \<Rightarrow>
          (case capture_pass c b (legal_moves c b) t1 of
             Inl e \<Rightarrow> Inl e
           | Inr t2 \<Rightarrow> Inr (sorted_desc t_priority t2)))"

section \<open>Position Classifier\<close>

text \<open>\<^verbatim>\<open>_determine_position_type\<close>: the loop counts the pawns on d4, e4, d5 and e5.\<close>

fun count_center_pawns :: "board \<Rightarrow> square list \<Rightarrow> int \<Rightarrow> int" where
  "count_center_pawns b [] center_pawns = center_pawns"
| "count_center_pawns b (sq # sqs) center_pawns =
     (case piece_at b sq of
        None \<Rightarrow> count_center_pawns b sqs center_pawns
      | Some p \<Rightarrow>
          if piece_type p = Pawn then count_center_pawns b sqs (center_pawns + 1)
          else count_center_pawns b sqs center_pawns)"

definition determine_position_type :: "board \<Rightarrow> string" where
  "determine_position_type b =
     (let center_pawns = count_center_pawns b [D4, E4, D5, E5] 0;
          total_pieces = occupied_count b
      in if center_pawns \<le> 1 then ''Open position''
         else if center_pawns \<ge> 3 then ''Closed position''
         else if total_pieces \<le> 10 then ''Endgame position''
         else if fullmove_number b > 10 \<and> halfmove_clock b < 3 then ''Tactical position''
         else ''Semi-open position'')"

text \<open>\<^verbatim>\<open>_suggest_approach\<close>: the evaluation arrives as the string \<^verbatim>\<open>str\<close> gives.\<close>

definition equal_position_advice :: "string \<Rightarrow> string" where
  "equal_position_advice position_type =
     (if str_contains ''Open'' position_type
      then ''The position is roughly equal and open. Focus on piece activity and creating imbalances.''
      else if str_contains ''Closed'' position_type
      then ''The position is roughly equal but closed. Consider a positional maneuver or breakthrough.''
      else if str_contains ''Tactical'' position_type
      then ''The position is balanced but tactical. Look for combinations and tactical opportunities.''
      else ''The position is balanced. Focus on improving your worst-placed piece.'')"

definition threshold_advice :: "int \<Rightarrow> string \<Rightarrow> string" where
  "threshold_advice eval_int position_type =
     (if \<bar>eval_int\<bar> < 30 then equal_position_advice position_type
      else if eval_int > 200
      then ''You have a significant advantage. Simplify the position and avoid unnecessary complications.''
      else if eval_int < - 200
      then ''You are at a disadvantage. Create complications and look for tactical chances.''
      else if eval_int > 0
      then ''You have a slight advantage. Focus on incrementally improving your position.''
      else ''You have a slight disadvantage. Focus on equalizing the position through careful defense.'')"

definition suggest_approach :: "string \<Rightarrow> string \<Rightarrow> string" where
  "suggest_approach eval_str position_type =
     (case py_int eval_str of
        Some eval_int \<Rightarrow> threshold_advice eval_int position_type
      | None \<Rightarrow>
          if str_contains ''#'' eval_str
          then ''There's a forced mate. Follow the tactical sequence.''
          else threshold_advice 0 position_type)"

section \<open>Move Explainer\<close>

text \<open>The responses of the dispatcher: a dictionary tagged by its \<^verbatim>\<open>"type"\<close>.\<close>

datatype response =
    MoveRecommendation string string "string option"
  | StrategyAdvice string "string list option"
  | TacticalAdvice string "string list option"
  | PositionEvaluation string string string
  | MoveExplanation string string string string
  | ErrorResponse string

text \<open>
  The text \<^verbatim>\<open>_explain_move\<close> composes before \<^verbatim>\<open>strip\<close>: the capture or reposition
  clause, the check clause, then for a pawn the centre and promotion clauses, for a
  knight or bishop the development clause.
\<close>

definition promotion_rank :: "color \<Rightarrow> int" where
  "promotion_rank c = (if c = White then 7 else 0)"

definition positional_context :: "board \<Rightarrow> move \<Rightarrow> string" where
  "positional_context b m =
     (case piece_at b (from_square m) of
        None \<Rightarrow> ''''
      | Some p \<Rightarrow>
          if piece_type p = Pawn
          then (if to_square m \<in> set [D4, E4, D5, E5]
                then ''This move helps control the center. '' else '''')
               @ (if square_rank (to_square m) = promotion_rank (color p) - 1
                  then ''This pawn is now one step away from promotion. '' else '''')
          else if piece_type p \<in> set [Knight, Bishop]
          then (if from_square m \<in> set [B1, G1, B8, G8, C1, F1, C8, F8]
                then ''This develops a piece from its starting position. '' else '''')
          else '''')"

definition explanation_text :: "collaborators \<Rightarrow> board \<Rightarrow> move \<Rightarrow> string \<Rightarrow> string" where
  "explanation_text c b m move_san =
     (let gives_check = is_check c (push c b m);
          piece = piece_at b (from_square m);
          piece_type_name = (case piece of None \<Rightarrow> ''Unknown'' | Some p \<Rightarrow> piece_name (Some p))
      in ''The move '' @ move_san @ '' ''
         @ (if is_capture c b m
            then ''captures a '' @ piece_name (piece_at b (to_square m)) @ ''. ''
            else ''repositions your '' @ piece_type_name @ ''. '')
         @ (if gives_check then ''It gives check to the opponent's king. '' else '''')
         @ positional_context b m)"

definition explain_move ::
  "collaborators \<Rightarrow> task_network \<Rightarrow> board \<Rightarrow> move \<Rightarrow> (error + response) \<times> task_network" where
  "explain_move c s b m =
     (case san c b m of
        Inl e \<Rightarrow> (Inl e, s)
      | Inr move_san \<Rightarrow>
          (case engine_analyse c s (push c b m) 100 of
             (Inl e, s1) \<Rightarrow> (Inl e, s1)
           | (Inr result, s1) \<Rightarrow>
               (case score result of
                  None \<Rightarrow> (Inl KeyError, s1)
                | Some eval_after \<Rightarrow>
                    (case engine_analyse c s1 b 100 of
                       (Inl e, s2) \<Rightarrow> (Inl e, s2)
                     | (Inr result_before, s2) \<Rightarrow>
                         (case score result_before of
                            None \<Rightarrow> (Inl KeyError, s2)
                          | Some eval_before \<Rightarrow>
                              (Inr (MoveExplanation move_san
                                      (strip (explanation_text c b m move_san))
                                      eval_before eval_after), s2))))))"

section \<open>Query Dispatcher\<close>

text \<open>
  The two \<^verbatim>\<open>move_recommendation\<close> branches read \<^verbatim>\<open>plan["immediate_action"]\<close> and
  \<^verbatim>\<open>plan["reasoning"]\<close>, in this order; the first branch adds the strategy.
\<close>

definition recommend :: "task_network \<Rightarrow> bool \<Rightarrow> error + response" where
  "recommend s with_strategy =
     (case get_best_plan s of
        Inl e \<Rightarrow> Inl e
      | Inr plan \<Rightarrow>
          (case getitem (p_immediate_action plan) of
             Inl e \<Rightarrow> Inl e
           | Inr action \<Rightarrow>
               (case getitem (p_reasoning plan) of
                  Inl e \<Rightarrow> Inl e
                | Inr why \<Rightarrow>
                    Inr (MoveRecommendation action why
                           (if with_strategy then Some (p_description plan) else None)))))"

definition strategy_advice :: "task_network \<Rightarrow> error + response" where
  "strategy_advice s =
     (if long_term_goals s = []
      then Inr (StrategyAdvice ''No clear strategic goals identified for this position.'' None)
      else (case sorted_desc priority (long_term_goals s) of
              [] \<Rightarrow> Inl IndexError
            | g # gs \<Rightarrow> Inr (StrategyAdvice (description g) (Some (map description gs)))))"

definition tactical_advice :: "collaborators \<Rightarrow> board \<Rightarrow> error + response" where
  "tactical_advice c b =
     (case identify_tactics c b of
        Inl e \<Rightarrow> Inl e
      | Inr [] \<Rightarrow> Inr (TacticalAdvice ''No immediate tactical opportunities found.'' None)
      | Inr (t # _) \<Rightarrow> Inr (TacticalAdvice (t_description t) (Some (t_moves t))))"

definition position_evaluation ::
  "collaborators \<Rightarrow> task_network \<Rightarrow> board \<Rightarrow> (error + response) \<times> task_network" where
  "position_evaluation c s b =
     (case engine_analyse c s b 200 of
        (Inl e, s1) \<Rightarrow> (Inl e, s1)
      | (Inr result, s1) \<Rightarrow>
          (case score result of
             None \<Rightarrow> (Inl KeyError, s1)
           | Some eval_score \<Rightarrow>
               (let position_type = determine_position_type b
                in (Inr (PositionEvaluation eval_score position_type
                           (suggest_approach eval_score position_type)), s1))))"

text \<open>
  The \<^verbatim>\<open>explain\<close> branch: the first word of the query with a letter and a digit is
  read as a move; a \<^verbatim>\<open>ValueError\<close> raised while reading or explaining it is caught,
  and the engine's best move is explained instead.
\<close>

definition move_words :: "string \<Rightarrow> string list" where
  "move_words query =
     filter (\<lambda>word. length word \<ge> 2 \<and> list_ex isalpha word \<and> list_ex isdigit word)
       (split query)"

definition explain_best_move ::
  "collaborators \<Rightarrow> task_network \<Rightarrow> board \<Rightarrow> (error + response) \<times> task_network" where
  "explain_best_move c s b =
     (case engine_analyse c s b 200 of
        (Inl e, s1) \<Rightarrow> (Inl e, s1)
      | (Inr result, s1) \<Rightarrow>
          (case pv result of
             None \<Rightarrow> (Inl KeyError, s1)
           | Some [] \<Rightarrow> (Inl IndexError, s1)
           | Some (best_move # _) \<Rightarrow> explain_move c s1 b best_move))"

definition explain_query ::
  "collaborators \<Rightarrow> task_network \<Rightarrow> board \<Rightarrow> string \<Rightarrow> (error + response) \<times> task_network" where
  "explain_query c s b query =
     (case move_words query of
        [] \<Rightarrow> explain_best_move c s b
      | w # _ \<Rightarrow>
          (case (if length w = 4 then from_uci c w else parse_san c b w) of
             None \<Rightarrow> explain_best_move c s b
           | Some m \<Rightarrow>
               (case explain_move c s b m of
                  (Inl ValueError, s1) \<Rightarrow> explain_best_move c s1 b
                | r \<Rightarrow> r)))"

text \<open>
  The chain of \<^verbatim>\<open>if\<close>/\<^verbatim>\<open>elif\<close> of \<^verbatim>\<open>process_natural_language\<close>, on the
  lower-cased query and the task network as the analysis left it.
\<close>

definition dispatch ::
  "collaborators \<Rightarrow> task_network \<Rightarrow> board \<Rightarrow> string \<Rightarrow> (error + response) \<times> task_network" where
  "dispatch c s b query =
     (if str_contains ''best move'' query \<or> str_contains ''what should i play'' query
         \<or> str_contains ''recommend'' query
      then (recommend s True, s)
      else if str_contains ''strategy'' query \<or> str_contains ''plan'' query
      then (strategy_advice s, s)
      else if str_contains ''tactic'' query \<or> str_contains ''opportunity'' query
      then (tactical_advice c b, s)
      else if str_contains ''evaluate'' query \<or> str_contains ''assessment'' query
              \<or> str_contains ''position'' query
      then position_evaluation c s b
      else if str_contains ''explain'' query \<and> str_contains ''move'' query
      then explain_query c s b query
      else (recommend s False, s))"

definition process_natural_language ::
  "collaborators \<Rightarrow> task_network \<Rightarrow> string \<Rightarrow> string \<Rightarrow> (error + response) \<times> task_network" where
  "process_natural_language c s fen query =
     (case board_of_fen c fen of
        None \<Rightarrow> (Inl ValueError, s)
      | Some b \<Rightarrow>
          (case analyze_position c s fen of
             (Inl e, s1) \<Rightarrow> (Inl e, s1)
           | (Inr _, s1) \<Rightarrow> dispatch c s1 b (lower query)))"

section \<open>The agent\<close>

text \<open>
  \<^verbatim>\<open>_format_response\<close>. The separator of the evaluation change is written in the
  source as three characters outside ASCII; they stand here as their UTF-8 bytes.
\<close>

definition nl :: string where
  "nl = [CHR 0x0A]"

definition change_arrow :: string where
  "change_arrow = [CHR 0xC3, CHR 0xA2, CHR 0xE2, CHR 0x80, CHR 0xA0, CHR 0xE2, CHR 0x80, CHR 0x99]"

fun numbered_options :: "nat \<Rightarrow> string list \<Rightarrow> string" where
  "numbered_options i [] = ''''"
| "numbered_options i (option # rest) =
     (if i = 1 then ''1'' else ''2'') @ ''. '' @ option @ nl @ numbered_options (Suc i) rest"

fun format_response :: "response \<Rightarrow> string" where
  "format_response (MoveRecommendation action why strat) =
     ''I recommend: '' @ action @ nl @ nl @ ''Reasoning: '' @ why
     @ (case strat of None \<Rightarrow> ''''
        | Some st \<Rightarrow> nl @ nl @ ''This supports the strategy: '' @ st)"
| "format_response (StrategyAdvice advice opts) =
     ''Strategic advice: '' @ advice
     @ (case opts of
          None \<Rightarrow> ''''
        | Some os \<Rightarrow>
            if os = [] then ''''
            else nl @ nl @ ''Alternative strategies to consider:'' @ nl
                 @ numbered_options 1 (take 2 os))"
| "format_response (TacticalAdvice advice ms) = ''Tactical opportunity: '' @ advice"
| "format_response (PositionEvaluation ev ptype approach) =
     ''Position evaluation: '' @ ev @ nl @ ''Position type: '' @ ptype @ nl @ nl
     @ ''Suggested approach: '' @ approach"
| "format_response (MoveExplanation mv expl before after) =
     ''Analysis of '' @ mv @ '':'' @ nl @ nl @ expl @ nl @ nl
     @ ''Evaluation change: '' @ before @ '' '' @ change_arrow @ '' '' @ after"
| "format_response (ErrorResponse msg) = ''Error: '' @ msg"

text \<open>
  What \<^verbatim>\<open>process_request\<close> returns: the \<^verbatim>\<open>error\<close> response as it is, or the
  dispatcher's response with its rendering (\<^verbatim>\<open>"raw"\<close> and \<^verbatim>\<open>"formatted"\<close>).
\<close>

datatype reply = Direct response | Rendered response string

definition process_request ::
  "collaborators \<Rightarrow> task_network \<Rightarrow> string \<Rightarrow> string \<Rightarrow> (error + reply) \<times> task_network" where
  "process_request c s request fen =
     (if fen = []
      then (Inr (Direct (ErrorResponse
                  ''No chess position provided. Please provide a FEN string.'')), s)
      else (case process_natural_language c s fen request of
              (Inl e, s1) \<Rightarrow> (Inl e, s1)
            | (Inr resp, s1) \<Rightarrow> (Inr (Rendered resp (format_response resp)), s1)))"

section \<open>Example collaborators\<close>

text \<open>
  A rules collaborator and an engine for king-and-pawn positions, to run the
  assistant on concrete inputs. The position comes with the table of its legal moves
  (move, notation, whether it captures); making a move and detecting a check by a pawn
  are computed; no side can castle. The engine answers every call with the same lines.
\<close>

definition place :: "(square \<times> piece) list \<Rightarrow> color \<Rightarrow> int \<Rightarrow> int \<Rightarrow> board" where
  "place ps t fm hm =
     \<lparr>piece_at = map_of ps, turn = t, fullmove_number = fm, halfmove_clock = hm\<rparr>"

definition mv :: "square \<Rightarrow> square \<Rightarrow> move" where
  "mv f t = \<lparr>from_square = f, to_square = t, promotion = None\<rparr>"

definition other :: "color \<Rightarrow> color" where
  "other c = (if c = White then Black else White)"

definition en_passant_victim :: "move \<Rightarrow> square" where
  "en_passant_victim m = 8 * (from_square m div 8) + to_square m mod 8"

definition kp_push :: "board \<Rightarrow> move \<Rightarrow> board" where
  "kp_push b m =
     (let p = piece_at b (from_square m);
          pawn = (case p of None \<Rightarrow> False | Some q \<Rightarrow> piece_type q = Pawn);
          taken = (piece_at b (to_square m) \<noteq> None);
          ep = (pawn \<and> \<not> taken \<and> from_square m mod 8 \<noteq> to_square m mod 8);
          cleared = (if ep then (piece_at b)(en_passant_victim m := None) else piece_at b)
      in \<lparr>piece_at = cleared(from_square m := None, to_square m := p),
          turn = other (turn b),
          fullmove_number = (if turn b = Black then fullmove_number b + 1 else fullmove_number b),
          halfmove_clock = (if pawn \<or> taken then 0 else halfmove_clock b + 1)\<rparr>)"

definition pawn_attacks :: "board \<Rightarrow> color \<Rightarrow> square \<Rightarrow> bool" where
  "pawn_attacks b by k =
     (let f = k mod 8; p = Some (Piece Pawn by)
      in if by = White
         then k \<ge> 8 \<and> ((f > 0 \<and> piece_at b (k - 9) = p) \<or> (f < 7 \<and> piece_at b (k - 7) = p))
         else (f > 0 \<and> piece_at b (k + 7) = p) \<or> (f < 7 \<and> piece_at b (k + 9) = p))"

definition kp_is_check :: "board \<Rightarrow> bool" where
  "kp_is_check b =
     (case king b (turn b) of None \<Rightarrow> False | Some k \<Rightarrow> pawn_attacks b (other (turn b)) k)"

definition square_name :: "square \<Rightarrow> string" where
  "square_name sq = [''abcdefgh'' ! (sq mod 8), ''12345678'' ! (sq div 8 mod 8)]"

definition kp_uci :: "move \<Rightarrow> string" where
  "kp_uci m =
     square_name (from_square m) @ square_name (to_square m)
     @ (case promotion m of
          None \<Rightarrow> ''''
        | Some pt \<Rightarrow> (case pt of Knight \<Rightarrow> ''n'' | Bishop \<Rightarrow> ''b'' | Rook \<Rightarrow> ''r''
                      | Queen \<Rightarrow> ''q'' | King \<Rightarrow> ''k'' | Pawn \<Rightarrow> ''p''))"

definition kp_collaborators ::
  "string \<Rightarrow> board \<Rightarrow> (move \<times> string \<times> bool) list \<Rightarrow> info list \<Rightarrow> collaborators" where
  "kp_collaborators fen b table lines =
     \<lparr>board_of_fen = (\<lambda>f. if f = fen then Some b else None),
      legal_moves = (\<lambda>_. map fst table),
      is_capture = (\<lambda>_ m. case map_of table m of None \<Rightarrow> False | Some (_, cap) \<Rightarrow> cap),
      push = kp_push,
      is_check = kp_is_check,
      san = (\<lambda>_ m. case map_of table m of None \<Rightarrow> Inl AssertionError | Some (s, _) \<Rightarrow> Inr s),
      parse_san = (\<lambda>_ w. map_option fst (find (\<lambda>(_, s, _). s = w) table)),
      from_uci = (\<lambda>w. map_option fst (find (\<lambda>(m, _). kp_uci m = w) table)),
      uci = kp_uci,
      has_castling_rights = (\<lambda>_ _. False),
      analyse = (\<lambda>_ _ _. case lines of [] \<Rightarrow> Inl EngineError | l # _ \<Rightarrow> Inr l),
      analyse_multipv = (\<lambda>_ _ _ n. Inr (take n lines))\<rparr>"

text \<open>
  White: king e1, pawn e5. Black: king e8, pawn d5, which has just advanced two
  squares (\<^verbatim>\<open>4k3/8/8/3pP3/8/8/8/4K3 w - d6 0 2\<close>). White may take it en passant.
\<close>

definition ep_fen :: string where
  "ep_fen = ''4k3/8/8/3pP3/8/8/8/4K3 w - d6 0 2''"

definition ep_board :: board where
  "ep_board = place [(4, Piece King White), (36, Piece Pawn White),
                     (35, Piece Pawn Black), (60, Piece King Black)] White 2 0"

definition ep_table :: "(move \<times> string \<times> bool) list" where
  "ep_table = [(mv 36 43, ''exd6'', True), (mv 36 44, ''e6'', False),
               (mv 4 3, ''Kd1'', False), (mv 4 11, ''Kd2'', False), (mv 4 12, ''Ke2'', False),
               (mv 4 13, ''Kf2'', False), (mv 4 5, ''Kf1'', False)]"

definition ep_lines :: "info list" where
  "ep_lines = [\<lparr>pv = Some [mv 36 43], score = Some ''+120''\<rparr>,
               \<lparr>pv = Some [mv 4 12], score = Some ''+15''\<rparr>,
               \<lparr>pv = Some [mv 36 44], score = Some ''-30''\<rparr>]"

definition ep_collaborators :: collaborators where
  "ep_collaborators = kp_collaborators ep_fen ep_board ep_table ep_lines"

definition empty_network :: task_network where
  "empty_network =
     \<lparr>long_term_goals = [], medium_term_goals = [], short_term_goals = [], engine_log = []\<rparr>"

definition e1_king_rows :: "(move \<times> string \<times> bool) list" where
  "e1_king_rows = [(mv 4 3, ''Kd1'', False), (mv 4 11, ''Kd2'', False), (mv 4 12, ''Ke2'', False),
                   (mv 4 13, ''Kf2'', False), (mv 4 5, ''Kf1'', False)]"

definition e8_king_rows :: "(move \<times> string \<times> bool) list" where
  "e8_king_rows = [(mv 60 59, ''Kd8'', False), (mv 60 51, ''Kd7'', False), (mv 60 52, ''Ke7'', False),
                   (mv 60 53, ''Kf7'', False), (mv 60 61, ''Kf8'', False)]"

text \<open>
  The same with the black king on e7 (\<^verbatim>\<open>8/4k3/8/3pP3/8/8/8/4K3 w - d6 0 2\<close>): taking
  en passant gives check.
\<close>

definition epc_fen :: string where
  "epc_fen = ''8/4k3/8/3pP3/8/8/8/4K3 w - d6 0 2''"

definition epc_board :: board where
  "epc_board = place [(4, Piece King White), (36, Piece Pawn White),
                      (35, Piece Pawn Black), (52, Piece King Black)] White 2 0"

definition epc_table :: "(move \<times> string \<times> bool) list" where
  "epc_table = [(mv 36 43, ''exd6+'', True), (mv 36 44, ''e6'', False)] @ e1_king_rows"

definition epc_collaborators :: collaborators where
  "epc_collaborators = kp_collaborators epc_fen epc_board epc_table ep_lines"

text \<open>
  White: king e1, pawn e4. Black: king e8, pawn d5
  (\<^verbatim>\<open>4k3/8/8/3p4/4P3/8/8/4K3 w - - 0 2\<close>). The pawn on e4 can take the pawn on d5.
\<close>

definition cap_fen :: string where
  "cap_fen = ''4k3/8/8/3p4/4P3/8/8/4K3 w - - 0 2''"

definition cap_board :: board where
  "cap_board = place [(4, Piece King White), (28, Piece Pawn White),
                      (35, Piece Pawn Black), (60, Piece King Black)] White 2 0"

definition cap_table :: "(move \<times> string \<times> bool) list" where
  "cap_table = [(mv 28 35, ''exd5'', True), (mv 28 36, ''e5'', False)] @ e1_king_rows"

definition cap_lines :: "info list" where
  "cap_lines = [\<lparr>pv = Some [mv 28 35], score = Some ''+110''\<rparr>,
                \<lparr>pv = Some [mv 28 36], score = Some ''+20''\<rparr>,
                \<lparr>pv = Some [mv 4 12], score = Some ''0''\<rparr>]"

definition cap_collaborators :: collaborators where
  "cap_collaborators = kp_collaborators cap_fen cap_board cap_table cap_lines"

text \<open>
  White: king e1, pawn e5. Black: king e7, pawn d6
  (\<^verbatim>\<open>8/4k3/3p4/4P3/8/8/8/4K3 w - - 0 2\<close>). Taking on d6 gives check.
\<close>

definition chk_fen :: string where
  "chk_fen = ''8/4k3/3p4/4P3/8/8/8/4K3 w - - 0 2''"

definition chk_board :: board where
  "chk_board = place [(4, Piece King White), (36, Piece Pawn White),
                      (43, Piece Pawn Black), (52, Piece King Black)] White 2 0"

definition chk_table :: "(move \<times> string \<times> bool) list" where
  "chk_table = [(mv 36 43, ''exd6+'', True), (mv 36 44, ''e6'', False)] @ e1_king_rows"

definition chk_collaborators :: collaborators where
  "chk_collaborators = kp_collaborators chk_fen chk_board chk_table ep_lines"

text \<open>
  Black to move with a pawn on a3 (\<^verbatim>\<open>4k3/8/8/8/8/p7/8/4K3 b - - 0 1\<close>), and White
  to move with a pawn on a6 (\<^verbatim>\<open>4k3/8/P7/8/8/8/8/4K3 w - - 0 1\<close>): each pawn is two
  steps from promotion.
\<close>

definition blk_fen :: string where
  "blk_fen = ''4k3/8/8/8/8/p7/8/4K3 b - - 0 1''"

definition blk_board :: board where
  "blk_board = place [(4, Piece King White), (16, Piece Pawn Black),
                      (60, Piece King Black)] Black 1 0"

definition blk_table :: "(move \<times> string \<times> bool) list" where
  "blk_table = [(mv 16 8, ''a2'', False)] @ e8_king_rows"

definition blk_lines :: "info list" where
  "blk_lines = [\<lparr>pv = Some [mv 16 8], score = Some ''+350''\<rparr>,
                \<lparr>pv = Some [mv 60 52], score = Some ''+200''\<rparr>,
                \<lparr>pv = Some [mv 60 51], score = Some ''+180''\<rparr>]"

definition blk_collaborators :: collaborators where
  "blk_collaborators = kp_collaborators blk_fen blk_board blk_table blk_lines"

definition wht_fen :: string where
  "wht_fen = ''4k3/8/P7/8/8/8/8/4K3 w - - 0 1''"

definition wht_board :: board where
  "wht_board = place [(4, Piece King White), (40, Piece Pawn White),
                      (60, Piece King Black)] White 1 0"

definition wht_table :: "(move \<times> string \<times> bool) list" where
  "wht_table = [(mv 40 48, ''a7'', False)] @ e1_king_rows"

definition wht_lines :: "info list" where
  "wht_lines = [\<lparr>pv = Some [mv 40 48], score = Some ''+350''\<rparr>,
                \<lparr>pv = Some [mv 4 12], score = Some ''+200''\<rparr>,
                \<lparr>pv = Some [mv 4 11], score = Some ''+180''\<rparr>]"

definition wht_collaborators :: collaborators where
  "wht_collaborators = kp_collaborators wht_fen wht_board wht_table wht_lines"

section \<open>Notions of the specification\<close>

text \<open>The number of pawns, of either colour, on the four central squares.\<close>

definition pawn_on :: "board \<Rightarrow> square \<Rightarrow> bool" where
  "pawn_on b sq = (case piece_at b sq of None \<Rightarrow> False | Some p \<Rightarrow> piece_type p = Pawn)"

definition center_pawn_count :: "board \<Rightarrow> nat" where
  "center_pawn_count b = length (filter (pawn_on b) [D4, E4, D5, E5])"

definition position_labels :: "string list" where
  "position_labels = [''Open position'', ''Closed position'', ''Endgame position'',
                      ''Tactical position'', ''Semi-open position'']"

text \<open>The two goals of the endgame phase.\<close>

definition activate_king :: chess_goal where
  "activate_king = ChessGoal ''Activate king and create passed pawns'' 8 None"


text \<open>The short-term goals that carry a move: the candidates of the planner.\<close>

definition actionable :: "task_network \<Rightarrow> chess_goal list" where
  "actionable s = filter (\<lambda>g. move_sequence g \<noteq> []) (short_term_goals s)"

text \<open>
  A task network whose short-term tier holds a goal without moves that outranks the
  others, and two goals of equal priority.
\<close>

definition plan_demo :: task_network where
  "plan_demo =
     \<lparr>long_term_goals = [activate_king],
      medium_term_goals = [ChessGoal ''Castle to safety'' 6 None],
      short_term_goals = [ChessGoal ''Hold the position'' 9 None,
                          ChessGoal ''Play e6'' 2 (Some [''e5e6'']),
                          ChessGoal ''Play exd6'' 3 (Some [''e5d6'']),
                          ChessGoal ''Play Ke2'' 3 (Some [''e1e2''])],
      engine_log = []\<rparr>"

text \<open>
  The queries that reach a \<^verbatim>\<open>move_recommendation\<close> branch of the dispatcher: the
  first branch, or none of the branches before the default.
\<close>

definition recommendation_query :: "string \<Rightarrow> bool" where
  "recommendation_query q =
     (str_contains ''best move'' q \<or> str_contains ''what should i play'' q
      \<or> str_contains ''recommend'' q
      \<or> \<not> (str_contains ''strategy'' q \<or> str_contains ''plan'' q
             \<or> str_contains ''tactic'' q \<or> str_contains ''opportunity'' q
             \<or> str_contains ''evaluate'' q \<or> str_contains ''assessment'' q
             \<or> str_contains ''position'' q
             \<or> (str_contains ''explain'' q \<and> str_contains ''move'' q)))"

text \<open>A task network with a strategy and no short-term goal.\<close>

definition moveless_network :: task_network where
  "moveless_network = empty_network\<lparr>long_term_goals := [activate_king]\<rparr>"

text \<open>
  The Tactic Scanner in the words of the specification: the moves that give check and
  the captures of a piece, standing on the destination square, worth at least the
  capturing piece, each in the order of the legal moves; the checks come first.
  \<open>rules_consistent\<close>: the rules collaborator names every legal move and every legal
  move starts on an occupied square. \<open>capture_victim\<close>: the piece a capture takes, on
  the destination square or, en passant, beside the capturing pawn.
\<close>

definition gives_check :: "collaborators \<Rightarrow> board \<Rightarrow> move \<Rightarrow> bool" where
  "gives_check c b m = is_check c (push c b m)"

definition favorable_capture :: "collaborators \<Rightarrow> board \<Rightarrow> move \<Rightarrow> bool" where
  "favorable_capture c b m =
     (is_capture c b m \<and>
      (case piece_at b (to_square m) of
         None \<Rightarrow> False
       | Some cap \<Rightarrow>
           (case piece_at b (from_square m) of
              None \<Rightarrow> False
            | Some att \<Rightarrow> value_of (piece_type cap) \<ge> value_of (piece_type att))))"

definition san_text :: "collaborators \<Rightarrow> board \<Rightarrow> move \<Rightarrow> string" where
  "san_text c b m = (case san c b m of Inl _ \<Rightarrow> [] | Inr s \<Rightarrow> s)"

definition check_tactics :: "collaborators \<Rightarrow> board \<Rightarrow> chess_tactic list" where
  "check_tactics c b =
     map (\<lambda>m. check_entry c m (san_text c b m)) (filter (gives_check c b) (legal_moves c b))"

definition capture_tactic :: "collaborators \<Rightarrow> board \<Rightarrow> move \<Rightarrow> chess_tactic list" where
  "capture_tactic c b m =
     (case piece_at b (to_square m) of
        None \<Rightarrow> []
      | Some cap \<Rightarrow> [capture_entry c m cap (san_text c b m)])"

definition capture_tactics :: "collaborators \<Rightarrow> board \<Rightarrow> chess_tactic list" where
  "capture_tactics c b =
     concat (map (capture_tactic c b) (filter (favorable_capture c b) (legal_moves c b)))"

definition rules_consistent :: "collaborators \<Rightarrow> board \<Rightarrow> bool" where
  "rules_consistent c b =
     list_all (\<lambda>m. (case san c b m of Inl _ \<Rightarrow> False | Inr _ \<Rightarrow> True)
                    \<and> piece_at b (from_square m) \<noteq> None) (legal_moves c b)"

definition capture_victim :: "board \<Rightarrow> move \<Rightarrow> piece option" where
  "capture_victim b m =
     (case piece_at b (to_square m) of
        Some p \<Rightarrow> Some p
      | None \<Rightarrow> piece_at b (en_passant_victim m))"

text \<open>The clause of the Move Explainer for a pawn one step from promotion.\<close>

definition promotion_clause :: string where
  "promotion_clause = ''This pawn is now one step away from promotion.''"

section \<open>Properties\<close>

subsection \<open>Position Classifier\<close>

lemma count_center_pawns_eq:
  "count_center_pawns b sqs n = n + int (length (filter (pawn_on b) sqs))"
  by (induction sqs arbitrary: n) (auto simp: pawn_on_def split: option.splits)

lemma determine_position_type_eq:
  "determine_position_type b =
     (if center_pawn_count b \<le> 1 then ''Open position''
      else if center_pawn_count b \<ge> 3 then ''Closed position''
      else if occupied_count b \<le> 10 then ''Endgame position''
      else if fullmove_number b > 10 \<and> halfmove_clock b < 3 then ''Tactical position''
      else ''Semi-open position'')"
  unfolding determine_position_type_def center_pawn_count_def Let_def count_center_pawns_eq
  by simp

text \<open>
  C6. \<^verbatim>\<open>_determine_position_type\<close> decides in this order: at most one centre pawn is
  an open position, at least three a closed one, then at most 10 occupied squares an
  endgame, then a move number above 10 with a half-move clock below 3 a tactical
  position, and anything else semi-open. The result is one of the five labels, which
  differ from each other; at most one centre pawn gives the open position whatever
  the other features are.
\<close>

theorem determine_position_type_decision:
  "determine_position_type b =
     (if center_pawn_count b \<le> 1 then ''Open position''
      else if center_pawn_count b \<ge> 3 then ''Closed position''
      else if occupied_count b \<le> 10 then ''Endgame position''
      else if fullmove_number b > 10 \<and> halfmove_clock b < 3 then ''Tactical position''
      else ''Semi-open position'')
   \<and> determine_position_type b \<in> set position_labels
   \<and> distinct position_labels
   \<and> (center_pawn_count b \<le> 1 \<longrightarrow> determine_position_type b = ''Open position'')"
  by (simp add: determine_position_type_eq position_labels_def)

theorem determine_position_type_decision_witness:
  "center_pawn_count blk_board \<le> 1 \<and> determine_position_type blk_board = ''Open position''
   \<and> center_pawn_count ep_board = 2 \<and> occupied_count ep_board \<le> 10
   \<and> determine_position_type ep_board = ''Endgame position''"
proof -
  have h: "center_pawn_count blk_board \<le> 1" by code_simp
  have c: "center_pawn_count ep_board = 2" by code_simp
  have o: "occupied_count ep_board \<le> 10" by code_simp
  from determine_position_type_decision [of blk_board] h
  have a: "determine_position_type blk_board = ''Open position''" by blast
  from determine_position_type_decision [of ep_board] c o
  have b: "determine_position_type ep_board = ''Endgame position''" by simp
  from h a c o b show ?thesis by blast
qed

subsection \<open>Planner\<close>

text \<open>
  The head of a stable descending sort: the first element of greatest key.
\<close>

lemma sorted_desc_first:
  "xs \<noteq> [] \<Longrightarrow>
   \<exists>top pre post rest. xs = pre @ top # post \<and> (\<forall>g\<in>set pre. k g < k top)
      \<and> (\<forall>g\<in>set post. k g \<le> k top) \<and> sorted_desc k xs = top # rest"
proof (induction xs)
  case Nil
  then show ?case by simp
next
  case (Cons x xs)
  show ?case
  proof (cases "xs = []")
    case True
    have "x # xs = [] @ x # []" using True by simp
    moreover have "sorted_desc k (x # xs) = x # []" using True by (simp add: sorted_desc_def)
    ultimately show ?thesis by (metis empty_iff list.set(1))
  next
    case False
    with Cons.IH obtain top pre post rest where
      split: "xs = pre @ top # post" and
      lt: "\<forall>g\<in>set pre. k g < k top" and
      le: "\<forall>g\<in>set post. k g \<le> k top" and
      hd: "sorted_desc k xs = top # rest" by blast
    have ins: "sorted_desc k (x # xs) = insort_key (\<lambda>y. - k y) x (top # rest)"
      using hd by (simp add: sorted_desc_def)
    show ?thesis
    proof (cases "k top \<le> k x")
      case True
      have all: "\<forall>g\<in>set xs. k g \<le> k x"
        using split lt le True by fastforce
      have "sorted_desc k (x # xs) = x # top # rest" using ins True by simp
      moreover have "x # xs = [] @ x # xs" by simp
      ultimately show ?thesis using all by (metis empty_iff list.set(1))
    next
      case False
      have "sorted_desc k (x # xs) = top # insort_key (\<lambda>y. - k y) x rest"
        using ins False by simp
      moreover have "x # xs = (x # pre) @ top # post" using split by simp
      moreover have "\<forall>g\<in>set (x # pre). k g < k top" using lt False by simp
      ultimately show ?thesis using le by blast
    qed
  qed
qed

lemma sorted_desc_Nil_iff: "sorted_desc k xs = [] \<longleftrightarrow> xs = []"
  by (metis length_0_conv length_sort sorted_desc_def)

lemma get_best_plan_empty:
  "long_term_goals s = [] \<Longrightarrow> medium_term_goals s = [] \<Longrightarrow> short_term_goals s = []
   \<Longrightarrow> get_best_plan s = Inr no_clear_plan"
  by (simp add: get_best_plan_def sorted_desc_def)

lemma get_best_plan_no_moves:
  "\<not> (long_term_goals s = [] \<and> medium_term_goals s = [] \<and> short_term_goals s = [])
   \<Longrightarrow> actionable s = [] \<Longrightarrow> get_best_plan s = Inr no_clear_moves"
  by (auto simp: get_best_plan_def sorted_desc_Nil_iff actionable_def Let_def)

lemma get_best_plan_top:
  assumes "actionable s \<noteq> []"
  shows "\<exists>top pre post plan. actionable s = pre @ top # post
           \<and> (\<forall>g\<in>set pre. priority g < priority top)
           \<and> (\<forall>g\<in>set post. priority g \<le> priority top)
           \<and> get_best_plan s = Inr plan
           \<and> p_moves plan = move_sequence top
           \<and> p_immediate_action plan = Some (description top)
           \<and> p_reasoning plan \<noteq> None
           \<and> p_moves plan \<noteq> []"
proof -
  from sorted_desc_first [OF assms, of priority] obtain top pre post rest where
    split: "actionable s = pre @ top # post" and
    lt: "\<forall>g\<in>set pre. priority g < priority top" and
    le: "\<forall>g\<in>set post. priority g \<le> priority top" and
    hd: "sorted_desc priority (actionable s) = top # rest" by blast
  have "top \<in> set (actionable s)" using split by simp
  then have ms: "move_sequence top \<noteq> []" by (simp add: actionable_def)
  have ne: "short_term_goals s \<noteq> []" using assms by (auto simp: actionable_def)
  define strat where "strat = (case long_term_goals s of [] \<Rightarrow> ''No specific strategy''
                                 | g # _ \<Rightarrow> description g)"
  define plan where "plan = \<lparr>p_description = strat,
                              p_immediate_action = Some (description top),
                              p_moves = move_sequence top,
                              p_reasoning = Some (generate_reasoning strat (description top))\<rparr>"
  have "get_best_plan s = Inr plan"
    using assms hd ne
    by (simp add: get_best_plan_def sorted_desc_Nil_iff actionable_def Let_def plan_def strat_def)
  then show ?thesis using split lt le ms by (auto simp: plan_def)
qed

text \<open>
  C3. \<^verbatim>\<open>get_best_plan\<close> returns the plan "No clear plan identified" exactly when the
  three tiers are empty. Otherwise, without a short-term goal that carries moves it
  returns "No clear moves identified". Otherwise its moves and immediate action are
  those of the first short-term goal of greatest priority among the goals that carry
  moves, so the moves of a plan are never empty.
\<close>

theorem get_best_plan_selection:
  "(get_best_plan s = Inr no_clear_plan \<longleftrightarrow>
      long_term_goals s = [] \<and> medium_term_goals s = [] \<and> short_term_goals s = [])
   \<and> (\<not> (long_term_goals s = [] \<and> medium_term_goals s = [] \<and> short_term_goals s = [])
        \<and> actionable s = [] \<longrightarrow> get_best_plan s = Inr no_clear_moves)
   \<and> (actionable s \<noteq> [] \<longrightarrow>
        (\<exists>top pre post plan. actionable s = pre @ top # post
           \<and> (\<forall>g\<in>set pre. priority g < priority top)
           \<and> (\<forall>g\<in>set post. priority g \<le> priority top)
           \<and> get_best_plan s = Inr plan
           \<and> p_moves plan = move_sequence top
           \<and> p_immediate_action plan = Some (description top)
           \<and> p_moves plan \<noteq> []))"
proof -
  have a: "get_best_plan s = Inr no_clear_plan \<longleftrightarrow>
      long_term_goals s = [] \<and> medium_term_goals s = [] \<and> short_term_goals s = []"
  proof
    assume r: "get_best_plan s = Inr no_clear_plan"
    show "long_term_goals s = [] \<and> medium_term_goals s = [] \<and> short_term_goals s = []"
    proof (rule ccontr)
      assume n: "\<not> ?thesis"
      show False
      proof (cases "actionable s = []")
        case True
        from get_best_plan_no_moves [OF n True] r show False
          by (simp add: no_clear_plan_def no_clear_moves_def)
      next
        case False
        from get_best_plan_top [OF False] r show False
          by (auto simp: no_clear_plan_def)
      qed
    qed
  next
    assume "long_term_goals s = [] \<and> medium_term_goals s = [] \<and> short_term_goals s = []"
    then show "get_best_plan s = Inr no_clear_plan" by (simp add: get_best_plan_empty)
  qed
  have b: "\<not> (long_term_goals s = [] \<and> medium_term_goals s = [] \<and> short_term_goals s = [])
        \<and> actionable s = [] \<longrightarrow> get_best_plan s = Inr no_clear_moves"
    using get_best_plan_no_moves by blast
  have c: "actionable s \<noteq> [] \<longrightarrow>
        (\<exists>top pre post plan. actionable s = pre @ top # post
           \<and> (\<forall>g\<in>set pre. priority g < priority top)
           \<and> (\<forall>g\<in>set post. priority g \<le> priority top)
           \<and> get_best_plan s = Inr plan
           \<and> p_moves plan = move_sequence top
           \<and> p_immediate_action plan = Some (description top)
           \<and> p_moves plan \<noteq> [])"
  proof
    assume "actionable s \<noteq> []"
    from get_best_plan_top [OF this] show "\<exists>top pre post plan. actionable s = pre @ top # post
           \<and> (\<forall>g\<in>set pre. priority g < priority top)
           \<and> (\<forall>g\<in>set post. priority g \<le> priority top)
           \<and> get_best_plan s = Inr plan
           \<and> p_moves plan = move_sequence top
           \<and> p_immediate_action plan = Some (description top)
           \<and> p_moves plan \<noteq> []" by blast
  qed
  from a b c show ?thesis by blast
qed

lemma plan_demo_value:
  "get_best_plan plan_demo =
     Inr \<lparr>p_description = ''Activate king and create passed pawns'',
          p_immediate_action = Some ''Play exd6'',
          p_moves = [''e5d6''],
          p_reasoning = Some ''This move supports our strategy to activate king and create passed pawns by making immediate progress.''\<rparr>"
  by code_simp

theorem get_best_plan_selection_witness:
  "actionable plan_demo \<noteq> []
   \<and> (\<exists>plan. get_best_plan plan_demo = Inr plan \<and> p_moves plan \<noteq> [])
   \<and> get_best_plan empty_network = Inr no_clear_plan
   \<and> get_best_plan (empty_network\<lparr>long_term_goals := [activate_king]\<rparr>) = Inr no_clear_moves"
proof -
  have ne: "actionable plan_demo \<noteq> []" by code_simp
  from get_best_plan_selection [of plan_demo] ne
  have a: "\<exists>plan. get_best_plan plan_demo = Inr plan \<and> p_moves plan \<noteq> []" by blast
  from get_best_plan_selection [of empty_network]
  have b: "get_best_plan empty_network = Inr no_clear_plan" by (simp add: empty_network_def)
  have "actionable (empty_network\<lparr>long_term_goals := [activate_king]\<rparr>) = []"
    by (simp add: actionable_def empty_network_def)
  with get_best_plan_selection [of "empty_network\<lparr>long_term_goals := [activate_king]\<rparr>"]
  have c: "get_best_plan (empty_network\<lparr>long_term_goals := [activate_king]\<rparr>) = Inr no_clear_moves"
    by simp
  from ne a b c show ?thesis by blast
qed

subsection \<open>Endgame goals and the evaluation string\<close>

lemma int_strip_hash: "\<exists>ys. int_strip (CHR ''#'' # cs) = CHR ''#'' # ys"
proof -
  have ns: "CHR ''#'' \<notin> set int_space" by (simp add: int_space_def)
  have "dropWhile (\<lambda>c. c \<in> set int_space) (rev cs @ [CHR ''#''])
          = dropWhile (\<lambda>c. c \<in> set int_space) (rev cs) @ [CHR ''#'']"
    using ns by (simp add: dropWhile_append3)
  then show ?thesis using ns by (simp add: int_strip_def)
qed

text \<open>A mate score is written with a leading \<open>#\<close>, which no integer has.\<close>

lemma mate_score_is_no_integer: "py_int (CHR ''#'' # cs) = None"
proof -
  obtain ys where "int_strip (CHR ''#'' # cs) = CHR ''#'' # ys" using int_strip_hash by blast
  then show ?thesis
    by (simp add: py_int_def unsigned_value_def isdigit_def ascii_digits_def)
qed

text \<open>
  The separators \<open>0x1C\<close> to \<open>0x1F\<close> are no whitespace for \<^verbatim>\<open>int\<close>, and a
  numeral of more than 4300 digits is refused.
\<close>

lemma py_int_separator: "py_int (CHR 0x1C # ''250'') = None"
  by (simp add: py_int_def int_strip_def int_space_def unsigned_value_def isdigit_def
      ascii_digits_def)

lemma unsigned_value_limit:
  "int_max_str_digits < length (filter isdigit ds) \<Longrightarrow> unsigned_value ds = None"
  by (simp add: unsigned_value_def)



subsection \<open>A request without a position\<close>

text \<open>
  C8. With an empty position string \<^verbatim>\<open>process_request\<close> returns the \<^verbatim>\<open>error\<close>
  response for every request text and leaves the task network as it was: no call
  is added to the record of engine calls.
\<close>

theorem process_request_empty_position:
  "process_request c s request [] =
     (Inr (Direct (ErrorResponse ''No chess position provided. Please provide a FEN string.'')), s)
   \<and> engine_log (snd (process_request c s request [])) = engine_log s"
  by (simp add: process_request_def)

subsection \<open>Position Analyzer and Query Dispatcher\<close>

lemma short_term_loop_frame:
  "short_term_loop c b i result s = (r, s') \<Longrightarrow>
     long_term_goals s' = long_term_goals s \<and> medium_term_goals s' = medium_term_goals s
     \<and> engine_log s' = engine_log s"
  by (induction result arbitrary: i s)
     (auto simp: append_short_def split: option.splits list.splits sum.splits)

lemma short_term_loop_goals:
  "short_term_loop c b i result s = (Inr u, s') \<Longrightarrow>
     \<exists>gs. short_term_goals s' = short_term_goals s @ gs \<and> length gs = length result
          \<and> (\<forall>g\<in>set gs. move_sequence g \<noteq> [])"
proof (induction result arbitrary: i s)
  case Nil
  then show ?case by simp
next
  case (Cons x xs)
  from Cons.prems obtain m ms ev t where
    p: "pv x = Some (m # ms)" and sc: "score x = Some ev" and sn: "san c b m = Inr t" and
    rec: "short_term_loop c b (Suc i) xs
            (append_short (ChessGoal (''Play '' @ t) (3 - int i) (Some [uci c m])) s) = (Inr u, s')"
    by (auto split: option.splits list.splits sum.splits)
  from Cons.IH [OF rec] obtain gs where
    g: "short_term_goals s' =
          short_term_goals (append_short (ChessGoal (''Play '' @ t) (3 - int i) (Some [uci c m])) s) @ gs"
    and l: "length gs = length xs" and ne: "\<forall>g\<in>set gs. move_sequence g \<noteq> []" by blast
  let ?g = "ChessGoal (''Play '' @ t) (3 - int i) (Some [uci c m])"
  have "short_term_goals s' = short_term_goals s @ (?g # gs)"
    using g by (simp add: append_short_def)
  moreover have "length (?g # gs) = length (x # xs)" using l by simp
  moreover have "\<forall>g\<in>set (?g # gs). move_sequence g \<noteq> []"
    using ne by (simp add: ChessGoal_def)
  ultimately show ?case by blast
qed

lemma identify_medium_term_goals_short [simp]:
  "short_term_goals (identify_medium_term_goals c b s) = short_term_goals s"
  by (simp add: identify_medium_term_goals_def append_medium_def Let_def)

lemma identify_long_term_goals_short [simp]:
  "short_term_goals (identify_long_term_goals b ev s) = short_term_goals s"
  by (simp add: identify_long_term_goals_def append_long_def Let_def
      split: phase.splits option.splits)

text \<open>An analysis that completes leaves a short-term goal that carries a move.\<close>

lemma analyze_position_actionable:
  assumes "analyze_position c s fen = (Inr a, s')"
  shows "actionable s' \<noteq> []"
proof -
  from assms obtain b result s1 u s2 r0 rs ev where
    loop: "short_term_loop c b 0 result s1 = (Inr u, s2)" and
    res: "result = r0 # rs" and
    fin: "s' = identify_long_term_goals b ev (identify_medium_term_goals c b s2)"
    by (auto simp: analyze_position_def Let_def simp del: short_term_loop.simps
        split: option.splits prod.splits sum.splits list.splits)
  from short_term_loop_goals [OF loop] obtain gs where
    g: "short_term_goals s2 = short_term_goals s1 @ gs" and
    l: "length gs = length result" and ne: "\<forall>g\<in>set gs. move_sequence g \<noteq> []" by blast
  from l res obtain g0 gs' where "gs = g0 # gs'" by (cases gs) auto
  then have "g0 \<in> set (short_term_goals s') \<and> move_sequence g0 \<noteq> []"
    using g ne fin by simp
  then show ?thesis by (auto simp: actionable_def filter_empty_conv)
qed

lemma recommend_actionable:
  assumes "actionable s \<noteq> []"
  shows "\<exists>action why. recommend s ws =
           Inr (MoveRecommendation action why (if ws then Some (case long_term_goals s of
                  [] \<Rightarrow> ''No specific strategy'' | g # _ \<Rightarrow> description g) else None))"
proof -
  from sorted_desc_first [OF assms, of priority] obtain top rest where
    hd: "sorted_desc priority (actionable s) = top # rest" by blast
  have ne: "short_term_goals s \<noteq> []" using assms by (auto simp: actionable_def)
  show ?thesis
    using assms hd ne
    by (simp add: recommend_def get_best_plan_def sorted_desc_Nil_iff actionable_def Let_def
        getitem_def)
qed

lemma recommend_sentinel:
  assumes "actionable s = []"
  shows "recommend s ws = Inl KeyError"
proof (cases "long_term_goals s = [] \<and> medium_term_goals s = [] \<and> short_term_goals s = []")
  case True
  then have "get_best_plan s = Inr no_clear_plan" by (simp add: get_best_plan_empty)
  then show ?thesis by (simp add: recommend_def no_clear_plan_def getitem_def)
next
  case False
  from get_best_plan_no_moves [OF False assms]
  show ?thesis by (simp add: recommend_def no_clear_moves_def getitem_def)
qed

lemma dispatch_recommendation:
  assumes "recommendation_query q"
  shows "dispatch c s b q =
           (recommend s (str_contains ''best move'' q \<or> str_contains ''what should i play'' q
                         \<or> str_contains ''recommend'' q), s)"
  using assms by (auto simp: dispatch_def recommendation_query_def)

lemma clear_goals_cong: "engine_log s1 = engine_log s2 \<Longrightarrow> clear_goals s1 = clear_goals s2"
  by (cases s1, cases s2) (simp add: clear_goals_def)

lemma analyze_position_fresh:
  assumes "engine_log s1 = engine_log s2" and "board_of_fen c fen \<noteq> None"
  shows "analyze_position c s1 fen = analyze_position c s2 fen"
  using assms(2) clear_goals_cong [OF assms(1)]
  by (auto simp: analyze_position_def)

text \<open>
  C1. \<^verbatim>\<open>process_natural_language\<close> answers from goals built for the position of
  the query: two task networks that made the same engine calls and differ in their
  three tiers give the same response to every position and query. Where the position
  is read, the analysis is the one of the network with all three tiers cleared, and
  the network after the call is the same too.
\<close>

theorem process_natural_language_fresh_goals:
  assumes "engine_log s1 = engine_log s2"
  shows "fst (process_natural_language c s1 fen q) = fst (process_natural_language c s2 fen q)
       \<and> (board_of_fen c fen \<noteq> None \<longrightarrow>
            analyze_position c s1 fen = analyze_position c (clear_goals s2) fen
            \<and> process_natural_language c s1 fen q = process_natural_language c s2 fen q)"
proof (cases "board_of_fen c fen")
  case None
  then show ?thesis by (simp add: process_natural_language_def)
next
  case (Some b)
  have l: "engine_log s1 = engine_log (clear_goals s2)" using assms by (simp add: clear_goals_def)
  have a: "analyze_position c s1 fen = analyze_position c s2 fen"
    using analyze_position_fresh [OF assms] Some by simp
  have a': "analyze_position c s1 fen = analyze_position c (clear_goals s2) fen"
    using analyze_position_fresh [OF l] Some by simp
  have "process_natural_language c s1 fen q = process_natural_language c s2 fen q"
    using Some a by (simp add: process_natural_language_def)
  then show ?thesis using a' by simp
qed

theorem process_natural_language_fresh_goals_witness:
  "engine_log plan_demo = engine_log empty_network
   \<and> board_of_fen ep_collaborators ep_fen \<noteq> None
   \<and> short_term_goals plan_demo \<noteq> short_term_goals empty_network
   \<and> fst (process_natural_language ep_collaborators plan_demo ep_fen ''best move?'')
       = fst (process_natural_language ep_collaborators empty_network ep_fen ''best move?'')
   \<and> fst (process_natural_language ep_collaborators empty_network ep_fen ''best move?'')
       = Inr (MoveRecommendation ''Play exd6''
               ''This move supports our strategy to activate king and create passed pawns by making immediate progress.''
               (Some ''Activate king and create passed pawns''))"
proof -
  have l: "engine_log plan_demo = engine_log empty_network"
    by (simp add: plan_demo_def empty_network_def)
  have p: "board_of_fen ep_collaborators ep_fen \<noteq> None"
    by (simp add: ep_collaborators_def kp_collaborators_def)
  have d: "short_term_goals plan_demo \<noteq> short_term_goals empty_network"
    by (simp add: plan_demo_def empty_network_def)
  from process_natural_language_fresh_goals [OF l, of ep_collaborators ep_fen "''best move?''"]
  have e: "fst (process_natural_language ep_collaborators plan_demo ep_fen ''best move?'')
       = fst (process_natural_language ep_collaborators empty_network ep_fen ''best move?'')"
    by blast
  have v: "fst (process_natural_language ep_collaborators empty_network ep_fen ''best move?'')
       = Inr (MoveRecommendation ''Play exd6''
               ''This move supports our strategy to activate king and create passed pawns by making immediate progress.''
               (Some ''Activate king and create passed pawns''))"
    by code_simp
  from l p d e v show ?thesis by blast
qed

text \<open>
  C2. A query whose lower-cased text contains both "best move" and "strategy" takes
  the first branch: when the analysis raises, its error is the outcome; when the
  analysis completes, the response is a \<^verbatim>\<open>move_recommendation\<close> with content,
  reasoning and strategy; it is never a \<^verbatim>\<open>strategy_advice\<close>.
\<close>

theorem best_move_before_strategy:
  assumes "str_contains ''best move'' (lower q)" and "str_contains ''strategy'' (lower q)"
  shows "(\<forall>e s'. analyze_position c s fen = (Inl e, s') \<longrightarrow>
            process_natural_language c s fen q = (Inl e, s'))
       \<and> (\<forall>a s'. analyze_position c s fen = (Inr a, s') \<longrightarrow>
            (\<exists>action why strat. process_natural_language c s fen q =
               (Inr (MoveRecommendation action why (Some strat)), s')))
       \<and> (\<forall>advice opts. fst (process_natural_language c s fen q)
                          \<noteq> Inr (StrategyAdvice advice opts))"
proof -
  have rq: "recommendation_query (lower q)" using assms(1) by (simp add: recommendation_query_def)
  have err: "process_natural_language c s fen q = (Inl e, s')"
    if "analyze_position c s fen = (Inl e, s')" for e s'
    using that by (auto simp: process_natural_language_def analyze_position_def
        split: option.splits)
  have ok: "\<exists>action why strat. process_natural_language c s fen q =
               (Inr (MoveRecommendation action why (Some strat)), s')"
    if an: "analyze_position c s fen = (Inr a, s')" for a s'
  proof -
    from an obtain b where b: "board_of_fen c fen = Some b"
      by (auto simp: analyze_position_def split: option.splits)
    have "process_natural_language c s fen q = dispatch c s' b (lower q)"
      using an b by (simp add: process_natural_language_def)
    also have "\<dots> = (recommend s' True, s')"
      using dispatch_recommendation [OF rq] assms(1) by simp
    finally show ?thesis
      using recommend_actionable [OF analyze_position_actionable [OF an], of True] by auto
  qed
  have no: "fst (process_natural_language c s fen q) \<noteq> Inr (StrategyAdvice advice opts)"
    for advice opts
  proof (cases "analyze_position c s fen")
    case (Pair r s')
    show ?thesis
    proof (cases r)
      case (Inl e)
      with Pair err show ?thesis by simp
    next
      case (Inr a)
      with Pair ok [of a s'] show ?thesis by auto
    qed
  qed
  from err ok no show ?thesis by blast
qed

theorem best_move_before_strategy_witness:
  "str_contains ''best move'' (lower ''What is the Best Move for my strategy?'')
   \<and> str_contains ''strategy'' (lower ''What is the Best Move for my strategy?'')
   \<and> fst (process_natural_language ep_collaborators empty_network ep_fen
            ''What is the Best Move for my strategy?'')
       = Inr (MoveRecommendation ''Play exd6''
               ''This move supports our strategy to activate king and create passed pawns by making immediate progress.''
               (Some ''Activate king and create passed pawns''))
   \<and> (\<forall>advice opts. fst (process_natural_language ep_collaborators empty_network ep_fen
            ''What is the Best Move for my strategy?'') \<noteq> Inr (StrategyAdvice advice opts))"
proof -
  have h1: "str_contains ''best move'' (lower ''What is the Best Move for my strategy?'')"
    by code_simp
  have h2: "str_contains ''strategy'' (lower ''What is the Best Move for my strategy?'')"
    by code_simp
  have v: "fst (process_natural_language ep_collaborators empty_network ep_fen
            ''What is the Best Move for my strategy?'')
       = Inr (MoveRecommendation ''Play exd6''
               ''This move supports our strategy to activate king and create passed pawns by making immediate progress.''
               (Some ''Activate king and create passed pawns''))"
    by code_simp
  from best_move_before_strategy [OF h1 h2, of ep_collaborators empty_network ep_fen]
  have n: "\<forall>advice opts. fst (process_natural_language ep_collaborators empty_network ep_fen
            ''What is the Best Move for my strategy?'') \<noteq> Inr (StrategyAdvice advice opts)"
    by blast
  from h1 h2 v n show ?thesis by blast
qed

text \<open>
  C10. On a query that reaches a \<^verbatim>\<open>move_recommendation\<close> branch, the chain of
  branches run on a task network whose plan lacks \<^verbatim>\<open>"immediate_action"\<close> raises
  \<^verbatim>\<open>KeyError\<close>; that is the case whenever no short-term goal carries a move, and
  the branch returns its response exactly when some short-term goal carries one.
\<close>

theorem recommendation_needs_actionable_goal:
  assumes "recommendation_query q"
  shows "(\<forall>plan. get_best_plan s = Inr plan \<and> p_immediate_action plan = None \<longrightarrow>
            dispatch c s b q = (Inl KeyError, s))
       \<and> (actionable s = [] \<longrightarrow>
            (\<exists>plan. get_best_plan s = Inr plan \<and> p_immediate_action plan = None)
            \<and> dispatch c s b q = (Inl KeyError, s))
       \<and> ((\<exists>action why strat. dispatch c s b q = (Inr (MoveRecommendation action why strat), s))
            \<longleftrightarrow> actionable s \<noteq> [])"
proof -
  note d = dispatch_recommendation [OF assms, of c s b]
  have sent: "\<exists>plan. get_best_plan s = Inr plan \<and> p_immediate_action plan = None"
    if "actionable s = []"
  proof (cases "long_term_goals s = [] \<and> medium_term_goals s = [] \<and> short_term_goals s = []")
    case True
    then show ?thesis by (simp add: get_best_plan_empty no_clear_plan_def)
  next
    case False
    from get_best_plan_no_moves [OF False that] show ?thesis by (simp add: no_clear_moves_def)
  qed
  have key: "dispatch c s b q = (Inl KeyError, s)" if "actionable s = []"
    using d recommend_sentinel [OF that] by simp
  have a: "dispatch c s b q = (Inl KeyError, s)"
    if "get_best_plan s = Inr plan \<and> p_immediate_action plan = None" for plan
  proof (cases "actionable s = []")
    case True
    then show ?thesis by (rule key)
  next
    case False
    from get_best_plan_top [OF False] that show ?thesis by auto
  qed
  have r: "\<exists>action why strat. dispatch c s b q = (Inr (MoveRecommendation action why strat), s)"
    if "actionable s \<noteq> []"
    using d recommend_actionable [OF that] by metis
  have c: "(\<exists>action why strat. dispatch c s b q = (Inr (MoveRecommendation action why strat), s))
            \<longleftrightarrow> actionable s \<noteq> []"
    using r key by auto
  from a sent key c show ?thesis by blast
qed

theorem recommendation_needs_actionable_goal_witness:
  "recommendation_query ''best move'' \<and> recommendation_query ''hello''
   \<and> actionable moveless_network = []
   \<and> get_best_plan moveless_network = Inr no_clear_moves
   \<and> dispatch ep_collaborators moveless_network ep_board ''best move'' = (Inl KeyError, moveless_network)
   \<and> dispatch ep_collaborators moveless_network ep_board ''hello'' = (Inl KeyError, moveless_network)"
proof -
  have q1: "recommendation_query ''best move''" by code_simp
  have q2: "recommendation_query ''hello''" by code_simp
  have e: "actionable moveless_network = []"
    by (simp add: actionable_def moveless_network_def empty_network_def)
  have g: "get_best_plan moveless_network = Inr no_clear_moves" by code_simp
  from recommendation_needs_actionable_goal [OF q1, of moveless_network ep_collaborators ep_board] e
  have a: "dispatch ep_collaborators moveless_network ep_board ''best move'' = (Inl KeyError, moveless_network)"
    by blast
  from recommendation_needs_actionable_goal [OF q2, of moveless_network ep_collaborators ep_board] e
  have b: "dispatch ep_collaborators moveless_network ep_board ''hello'' = (Inl KeyError, moveless_network)"
    by blast
  from q1 q2 e g a b show ?thesis by blast
qed

subsection \<open>Tactic Scanner\<close>

lemma check_pass_eq:
  "list_all (\<lambda>m. case san c b m of Inl _ \<Rightarrow> False | Inr _ \<Rightarrow> True) ms \<Longrightarrow>
   check_pass c b ms acc =
     Inr (acc @ map (\<lambda>m. check_entry c m (san_text c b m)) (filter (gives_check c b) ms))"
  by (induction ms arbitrary: acc)
     (auto simp: san_text_def gives_check_def split: sum.splits)

lemma capture_pass_eq:
  "list_all (\<lambda>m. (case san c b m of Inl _ \<Rightarrow> False | Inr _ \<Rightarrow> True)
                   \<and> piece_at b (from_square m) \<noteq> None) ms \<Longrightarrow>
   capture_pass c b ms acc =
     Inr (acc @ concat (map (capture_tactic c b) (filter (favorable_capture c b) ms)))"
  by (induction ms arbitrary: acc)
     (auto simp: san_text_def favorable_capture_def capture_tactic_def
           split: sum.splits option.splits)

lemma identify_tactics_eq:
  assumes "rules_consistent c b"
  shows "identify_tactics c b = Inr (sorted_desc t_priority (check_tactics c b @ capture_tactics c b))"
proof -
  have s: "list_all (\<lambda>m. case san c b m of Inl _ \<Rightarrow> False | Inr _ \<Rightarrow> True) (legal_moves c b)"
    using assms by (simp add: rules_consistent_def list_all_iff)
  have p: "list_all (\<lambda>m. (case san c b m of Inl _ \<Rightarrow> False | Inr _ \<Rightarrow> True)
                   \<and> piece_at b (from_square m) \<noteq> None) (legal_moves c b)"
    using assms by (simp add: rules_consistent_def)
  show ?thesis
    by (simp add: identify_tactics_def check_pass_eq [OF s] capture_pass_eq [OF p]
        check_tactics_def capture_tactics_def)
qed

lemma capture_tactic_member:
  assumes "m \<in> set (legal_moves c b)" and "is_capture c b m"
    and "piece_at b (to_square m) = Some cap" and "piece_at b (from_square m) = Some att"
    and "value_of (piece_type cap) \<ge> value_of (piece_type att)"
  shows "capture_entry c m cap (san_text c b m) \<in> set (capture_tactics c b)"
proof -
  have "favorable_capture c b m" using assms by (simp add: favorable_capture_def)
  moreover have "capture_tactic c b m = [capture_entry c m cap (san_text c b m)]"
    using assms(3) by (simp add: capture_tactic_def)
  ultimately show ?thesis using assms(1) by (auto simp: capture_tactics_def)
qed

lemma capture_tactics_length:
  "length (concat (map (capture_tactic c b) (filter (favorable_capture c b) ms)))
     = length (filter (favorable_capture c b) ms)"
  by (induction ms)
     (auto simp: favorable_capture_def capture_tactic_def split: option.splits)

lemma capture_tactics_origin:
  assumes "t \<in> set (capture_tactics c b)"
  shows "\<exists>m\<in>set (legal_moves c b). \<exists>cap att.
           is_capture c b m \<and> piece_at b (to_square m) = Some cap
           \<and> piece_at b (from_square m) = Some att
           \<and> value_of (piece_type cap) \<ge> value_of (piece_type att)
           \<and> t = capture_entry c m cap (san_text c b m)"
proof -
  from assms obtain m where
    l: "m \<in> set (legal_moves c b)" and f: "favorable_capture c b m" and
    e: "t \<in> set (capture_tactic c b m)"
    by (auto simp: capture_tactics_def)
  from f obtain cap att where
    "is_capture c b m" and "piece_at b (to_square m) = Some cap" and
    "piece_at b (from_square m) = Some att" and
    "value_of (piece_type cap) \<ge> value_of (piece_type att)"
    by (auto simp: favorable_capture_def split: option.splits)
  moreover from this e have "t = capture_entry c m cap (san_text c b m)"
    by (simp add: capture_tactic_def)
  ultimately show ?thesis using l by blast
qed

lemma check_tactics_origin:
  assumes "t \<in> set (check_tactics c b)"
  shows "\<exists>m\<in>set (legal_moves c b). gives_check c b m \<and> t = check_entry c m (san_text c b m)"
  using assms by (auto simp: check_tactics_def)

text \<open>
  C4, amended. With a rules collaborator that names the legal moves,
  \<^verbatim>\<open>_identify_tactics\<close> returns, and for every legal capture whose destination square
  holds a piece worth at least the capturing piece the result has an entry for that
  move, with the captured piece's value as its priority. The result holds nothing
  else but the checks: every entry is the check entry of a legal move that gives
  check, or the capture entry of a legal capture of the piece on its destination
  square, and there are as many entries as such checks and captures. A capture en
  passant, whose destination square is empty, has no capture entry.
\<close>

theorem capture_on_occupied_square_listed:
  assumes "rules_consistent c b"
  shows "\<exists>ts. identify_tactics c b = Inr ts \<and>
           (\<forall>m\<in>set (legal_moves c b). \<forall>cap att.
              is_capture c b m \<and> piece_at b (to_square m) = Some cap
              \<and> piece_at b (from_square m) = Some att
              \<and> value_of (piece_type cap) \<ge> value_of (piece_type att) \<longrightarrow>
              (\<exists>t\<in>set ts. t_moves t = [uci c m] \<and> t_priority t = value_of (piece_type cap)
                 \<and> t_description t
                     = ''Capture '' @ piece_name (Some cap) @ '' with '' @ san_text c b m))
           \<and> (\<forall>t\<in>set ts.
                 (\<exists>m\<in>set (legal_moves c b).
                    gives_check c b m \<and> t = check_entry c m (san_text c b m))
                 \<or> (\<exists>m\<in>set (legal_moves c b). \<exists>cap att.
                       is_capture c b m \<and> piece_at b (to_square m) = Some cap
                       \<and> piece_at b (from_square m) = Some att
                       \<and> value_of (piece_type cap) \<ge> value_of (piece_type att)
                       \<and> t = capture_entry c m cap (san_text c b m)))
           \<and> length ts = length (filter (gives_check c b) (legal_moves c b))
                          + length (filter (favorable_capture c b) (legal_moves c b))
           \<and> (\<forall>m. piece_at b (to_square m) = None \<longrightarrow> \<not> favorable_capture c b m)"
proof -
  let ?ts = "sorted_desc t_priority (check_tactics c b @ capture_tactics c b)"
  have r: "identify_tactics c b = Inr ?ts" by (rule identify_tactics_eq [OF assms])
  have a: "\<exists>t\<in>set ?ts. t_moves t = [uci c m] \<and> t_priority t = value_of (piece_type cap)
           \<and> t_description t = ''Capture '' @ piece_name (Some cap) @ '' with '' @ san_text c b m"
    if "m \<in> set (legal_moves c b)" and "is_capture c b m"
      and "piece_at b (to_square m) = Some cap" and "piece_at b (from_square m) = Some att"
      and "value_of (piece_type cap) \<ge> value_of (piece_type att)" for m cap att
  proof -
    from capture_tactic_member [OF that]
    have "capture_entry c m cap (san_text c b m) \<in> set ?ts" by (simp add: sorted_desc_def)
    then show ?thesis by (rule bexI [rotated]) (simp add: capture_entry_def)
  qed
  have o: "(\<exists>m\<in>set (legal_moves c b). gives_check c b m \<and> t = check_entry c m (san_text c b m))
           \<or> (\<exists>m\<in>set (legal_moves c b). \<exists>cap att.
                 is_capture c b m \<and> piece_at b (to_square m) = Some cap
                 \<and> piece_at b (from_square m) = Some att
                 \<and> value_of (piece_type cap) \<ge> value_of (piece_type att)
                 \<and> t = capture_entry c m cap (san_text c b m))"
    if "t \<in> set ?ts" for t
  proof -
    from that have "t \<in> set (check_tactics c b) \<or> t \<in> set (capture_tactics c b)"
      by (simp add: sorted_desc_def)
    then show ?thesis
      using check_tactics_origin [of t c b] capture_tactics_origin [of t c b] by blast
  qed
  have n: "length ?ts = length (filter (gives_check c b) (legal_moves c b))
                        + length (filter (favorable_capture c b) (legal_moves c b))"
    by (simp add: sorted_desc_def check_tactics_def capture_tactics_def capture_tactics_length)
  have e: "\<forall>m. piece_at b (to_square m) = None \<longrightarrow> \<not> favorable_capture c b m"
    by (simp add: favorable_capture_def)
  from r a o n e show ?thesis by blast
qed

lemma cap_tactics_value:
  "identify_tactics cap_collaborators cap_board =
     Inr [\<lparr>t_description = ''Capture black pawn with exd5'', t_moves = [''e4d5''], t_priority = 1\<rparr>]"
  by code_simp

theorem capture_on_occupied_square_listed_witness:
  "rules_consistent cap_collaborators cap_board
   \<and> mv 28 35 \<in> set (legal_moves cap_collaborators cap_board)
   \<and> is_capture cap_collaborators cap_board (mv 28 35)
   \<and> piece_at cap_board (to_square (mv 28 35)) = Some (Piece Pawn Black)
   \<and> piece_at cap_board (from_square (mv 28 35)) = Some (Piece Pawn White)
   \<and> (\<exists>ts. identify_tactics cap_collaborators cap_board = Inr ts
         \<and> (\<exists>t\<in>set ts. t_moves t = [''e4d5''] \<and> t_priority t = 1))
   \<and> rules_consistent ep_collaborators ep_board
   \<and> is_capture ep_collaborators ep_board (mv 36 43)
   \<and> piece_at ep_board (to_square (mv 36 43)) = None
   \<and> (\<exists>ts. identify_tactics ep_collaborators ep_board = Inr ts \<and> length ts = 0)"
proof -
  have rc: "rules_consistent cap_collaborators cap_board" by code_simp
  have l: "mv 28 35 \<in> set (legal_moves cap_collaborators cap_board)" by code_simp
  have ic: "is_capture cap_collaborators cap_board (mv 28 35)" by code_simp
  have t: "piece_at cap_board (to_square (mv 28 35)) = Some (Piece Pawn Black)" by code_simp
  have f: "piece_at cap_board (from_square (mv 28 35)) = Some (Piece Pawn White)" by code_simp
  have u: "uci cap_collaborators (mv 28 35) = ''e4d5''" by code_simp
  have v: "value_of (piece_type (Piece Pawn Black)) = 1" by code_simp
  have w: "value_of (piece_type (Piece Pawn White)) = 1" by code_simp
  from capture_on_occupied_square_listed [OF rc] obtain ts where
    r: "identify_tactics cap_collaborators cap_board = Inr ts" and
    a: "\<forall>m\<in>set (legal_moves cap_collaborators cap_board). \<forall>cap att.
              is_capture cap_collaborators cap_board m \<and> piece_at cap_board (to_square m) = Some cap
              \<and> piece_at cap_board (from_square m) = Some att
              \<and> value_of (piece_type cap) \<ge> value_of (piece_type att) \<longrightarrow>
              (\<exists>t\<in>set ts. t_moves t = [uci cap_collaborators m]
                 \<and> t_priority t = value_of (piece_type cap)
                 \<and> t_description t
                     = ''Capture '' @ piece_name (Some cap) @ '' with ''
                       @ san_text cap_collaborators cap_board m)" by blast
  from a l ic t f v w have "\<exists>t\<in>set ts. t_moves t = [uci cap_collaborators (mv 28 35)]
      \<and> t_priority t = value_of (piece_type (Piece Pawn Black))"
    by (metis order_refl)
  then have "\<exists>t\<in>set ts. t_moves t = [''e4d5''] \<and> t_priority t = 1" using u v by simp
  with r have x: "\<exists>ts. identify_tactics cap_collaborators cap_board = Inr ts
         \<and> (\<exists>t\<in>set ts. t_moves t = [''e4d5''] \<and> t_priority t = 1)" by blast
  have rc': "rules_consistent ep_collaborators ep_board" by code_simp
  have ic': "is_capture ep_collaborators ep_board (mv 36 43)" by code_simp
  have t': "piece_at ep_board (to_square (mv 36 43)) = None" by code_simp
  have g0: "length (filter (gives_check ep_collaborators ep_board)
              (legal_moves ep_collaborators ep_board)) = 0" by code_simp
  have f0: "length (filter (favorable_capture ep_collaborators ep_board)
              (legal_moves ep_collaborators ep_board)) = 0" by code_simp
  from capture_on_occupied_square_listed [OF rc'] obtain us where
    r': "identify_tactics ep_collaborators ep_board = Inr us" and
    n': "length us = length (filter (gives_check ep_collaborators ep_board)
                        (legal_moves ep_collaborators ep_board))
                     + length (filter (favorable_capture ep_collaborators ep_board)
                        (legal_moves ep_collaborators ep_board))" by blast
  from r' n' g0 f0 have y: "\<exists>ts. identify_tactics ep_collaborators ep_board = Inr ts \<and> length ts = 0"
    by simp
  from rc l ic t f x rc' ic' t' y show ?thesis by blast
qed

text \<open>
  C4 as stated fails for a capture en passant: the pawn on e5 takes the pawn on d5, a
  pawn for a pawn, and the scanner lists nothing, since the destination square d6 is
  empty.
\<close>

theorem en_passant_capture_not_listed:
  "mv 36 43 \<in> set (legal_moves ep_collaborators ep_board)
   \<and> is_capture ep_collaborators ep_board (mv 36 43)
   \<and> capture_victim ep_board (mv 36 43) = Some (Piece Pawn Black)
   \<and> piece_at ep_board (from_square (mv 36 43)) = Some (Piece Pawn White)
   \<and> value_of Pawn \<ge> value_of Pawn
   \<and> identify_tactics ep_collaborators ep_board = Inr []"
  by code_simp

lemma two_members_filter:
  assumes "x \<in> set xs" and "y \<in> set xs" and "x \<noteq> y" and "P x" and "P y"
  shows "2 \<le> length (filter P xs)"
proof -
  have "{x, y} \<subseteq> set (filter P xs)" using assms by simp
  then have "card {x, y} \<le> card (set (filter P xs))" by (simp add: card_mono)
  also have "\<dots> \<le> length (filter P xs)" by (rule card_length)
  finally show ?thesis using assms(3) by simp
qed

lemma sorted_desc_sorted: "sorted_wrt (\<lambda>t u. k t \<ge> k u) (sorted_desc k xs)"
proof -
  have "sorted (map (\<lambda>x. - k x) (sort_key (\<lambda>x. - k x) xs))" by (rule sorted_sort_key)
  then show ?thesis by (simp add: sorted_desc_def sorted_wrt_map)
qed

lemma sorted_desc_stable: "filter (\<lambda>t. k t = n) (sorted_desc k xs) = filter (\<lambda>t. k t = n) xs"
  using sort_key_stable [of "\<lambda>x. - k x" "- n" xs] by (simp add: sorted_desc_def)

lemma check_tactic_member:
  assumes "m \<in> set (legal_moves c b)" and "gives_check c b m"
  shows "check_entry c m (san_text c b m) \<in> set (check_tactics c b)"
  using assms by (auto simp: check_tactics_def)

text \<open>
  C5, amended. With a rules collaborator that names the legal moves, the result of
  \<^verbatim>\<open>_identify_tactics\<close> is non-increasing in priority; the entries of one priority
  stand in the order of discovery, the checks before the captures; and a legal move
  that gives check and takes, on its destination square, a piece worth at least the
  capturing piece has two different entries, one of each pass.
\<close>

theorem tactics_sorted_checks_first:
  assumes "rules_consistent c b"
  shows "\<exists>ts. identify_tactics c b = Inr ts
           \<and> sorted_wrt (\<lambda>t u. t_priority t \<ge> t_priority u) ts
           \<and> (\<forall>k. filter (\<lambda>t. t_priority t = k) ts
                    = filter (\<lambda>t. t_priority t = k) (check_tactics c b @ capture_tactics c b))
           \<and> (\<forall>m\<in>set (legal_moves c b). \<forall>cap att.
                 gives_check c b m \<and> is_capture c b m
                 \<and> piece_at b (to_square m) = Some cap \<and> piece_at b (from_square m) = Some att
                 \<and> value_of (piece_type cap) \<ge> value_of (piece_type att) \<longrightarrow>
                 check_entry c m (san_text c b m) \<in> set ts
                 \<and> capture_entry c m cap (san_text c b m) \<in> set ts
                 \<and> check_entry c m (san_text c b m) \<noteq> capture_entry c m cap (san_text c b m)
                 \<and> 2 \<le> length (filter (\<lambda>t. t_moves t = [uci c m]) ts))"
proof -
  let ?ts = "sorted_desc t_priority (check_tactics c b @ capture_tactics c b)"
  have r: "identify_tactics c b = Inr ?ts" by (rule identify_tactics_eq [OF assms])
  have s: "sorted_wrt (\<lambda>t u. t_priority t \<ge> t_priority u) ?ts" by (rule sorted_desc_sorted)
  have st: "\<forall>k. filter (\<lambda>t. t_priority t = k) ?ts
                    = filter (\<lambda>t. t_priority t = k) (check_tactics c b @ capture_tactics c b)"
    by (simp only: sorted_desc_stable) simp
  have two: "check_entry c m (san_text c b m) \<in> set ?ts
                 \<and> capture_entry c m cap (san_text c b m) \<in> set ?ts
                 \<and> check_entry c m (san_text c b m) \<noteq> capture_entry c m cap (san_text c b m)
                 \<and> 2 \<le> length (filter (\<lambda>t. t_moves t = [uci c m]) ?ts)"
    if l: "m \<in> set (legal_moves c b)" and g: "gives_check c b m" and ic: "is_capture c b m"
      and t: "piece_at b (to_square m) = Some cap" and f: "piece_at b (from_square m) = Some att"
      and v: "value_of (piece_type cap) \<ge> value_of (piece_type att)" for m cap att
  proof -
    have a: "check_entry c m (san_text c b m) \<in> set ?ts"
      using check_tactic_member [OF l g] by (simp add: sorted_desc_def)
    have b: "capture_entry c m cap (san_text c b m) \<in> set ?ts"
      using capture_tactic_member [OF l ic t f v] by (simp add: sorted_desc_def)
    have d: "check_entry c m (san_text c b m) \<noteq> capture_entry c m cap (san_text c b m)"
      by (simp add: check_entry_def capture_entry_def)
    have "2 \<le> length (filter (\<lambda>t. t_moves t = [uci c m]) ?ts)"
      by (rule two_members_filter [OF a b d]) (simp_all add: check_entry_def capture_entry_def)
    with a b d show ?thesis by blast
  qed
  from r s st two show ?thesis by blast
qed

lemma chk_tactics_value:
  "identify_tactics chk_collaborators chk_board =
     Inr [\<lparr>t_description = ''Check with exd6+'', t_moves = [''e5d6''], t_priority = 5\<rparr>,
          \<lparr>t_description = ''Capture black pawn with exd6+'', t_moves = [''e5d6''],
            t_priority = 1\<rparr>]"
  by code_simp

theorem tactics_sorted_checks_first_witness:
  "rules_consistent chk_collaborators chk_board
   \<and> mv 36 43 \<in> set (legal_moves chk_collaborators chk_board)
   \<and> gives_check chk_collaborators chk_board (mv 36 43)
   \<and> is_capture chk_collaborators chk_board (mv 36 43)
   \<and> piece_at chk_board (to_square (mv 36 43)) = Some (Piece Pawn Black)
   \<and> piece_at chk_board (from_square (mv 36 43)) = Some (Piece Pawn White)
   \<and> (\<exists>ts. identify_tactics chk_collaborators chk_board = Inr ts
         \<and> sorted_wrt (\<lambda>t u. t_priority t \<ge> t_priority u) ts
         \<and> 2 \<le> length (filter (\<lambda>t. t_moves t = [uci chk_collaborators (mv 36 43)]) ts))"
proof -
  have rc: "rules_consistent chk_collaborators chk_board" by code_simp
  have l: "mv 36 43 \<in> set (legal_moves chk_collaborators chk_board)" by code_simp
  have g: "gives_check chk_collaborators chk_board (mv 36 43)" by code_simp
  have ic: "is_capture chk_collaborators chk_board (mv 36 43)" by code_simp
  have t: "piece_at chk_board (to_square (mv 36 43)) = Some (Piece Pawn Black)" by code_simp
  have f: "piece_at chk_board (from_square (mv 36 43)) = Some (Piece Pawn White)" by code_simp
  have v: "value_of (piece_type (Piece Pawn Black)) \<ge> value_of (piece_type (Piece Pawn White))"
    by code_simp
  from tactics_sorted_checks_first [OF rc] obtain ts where
    r: "identify_tactics chk_collaborators chk_board = Inr ts" and
    s: "sorted_wrt (\<lambda>t u. t_priority t \<ge> t_priority u) ts" and
    a: "\<forall>m\<in>set (legal_moves chk_collaborators chk_board). \<forall>cap att.
                 gives_check chk_collaborators chk_board m \<and> is_capture chk_collaborators chk_board m
                 \<and> piece_at chk_board (to_square m) = Some cap
                 \<and> piece_at chk_board (from_square m) = Some att
                 \<and> value_of (piece_type cap) \<ge> value_of (piece_type att) \<longrightarrow>
                 check_entry chk_collaborators m (san_text chk_collaborators chk_board m) \<in> set ts
                 \<and> capture_entry chk_collaborators m cap (san_text chk_collaborators chk_board m)
                      \<in> set ts
                 \<and> check_entry chk_collaborators m (san_text chk_collaborators chk_board m)
                      \<noteq> capture_entry chk_collaborators m cap
                           (san_text chk_collaborators chk_board m)
                 \<and> 2 \<le> length (filter (\<lambda>t. t_moves t = [uci chk_collaborators m]) ts)"
    by blast
  from a l g ic t f v
  have "2 \<le> length (filter (\<lambda>t. t_moves t = [uci chk_collaborators (mv 36 43)]) ts)"
    by blast
  with r s have "\<exists>ts. identify_tactics chk_collaborators chk_board = Inr ts
         \<and> sorted_wrt (\<lambda>t u. t_priority t \<ge> t_priority u) ts
         \<and> 2 \<le> length (filter (\<lambda>t. t_moves t = [uci chk_collaborators (mv 36 43)]) ts)"
    by blast
  with rc l g ic t f show ?thesis by blast
qed

text \<open>
  C5 as stated fails for a capture en passant that gives check: with the black king
  on e7 the pawn on e5 takes the pawn on d5 with check, a pawn for a pawn, and the
  scanner lists the move once, as a check.
\<close>

theorem en_passant_check_listed_once:
  "mv 36 43 \<in> set (legal_moves epc_collaborators epc_board)
   \<and> gives_check epc_collaborators epc_board (mv 36 43)
   \<and> is_capture epc_collaborators epc_board (mv 36 43)
   \<and> capture_victim epc_board (mv 36 43) = Some (Piece Pawn Black)
   \<and> piece_at epc_board (from_square (mv 36 43)) = Some (Piece Pawn White)
   \<and> value_of Pawn \<ge> value_of Pawn
   \<and> identify_tactics epc_collaborators epc_board =
       Inr [\<lparr>t_description = ''Check with exd6+'', t_moves = [''e5d6''], t_priority = 5\<rparr>]"
  by code_simp

subsection \<open>Move Explainer\<close>

text \<open>
  The positional clauses for a pawn. The test compares the destination rank with the
  promotion rank minus one, for both colours: 6 for White, and for Black \<open>-1\<close>, which
  no square has.
\<close>

lemma positional_context_black_pawn:
  assumes "piece_at b (from_square m) = Some (Piece Pawn Black)"
  shows "positional_context b m =
           (if to_square m \<in> set [D4, E4, D5, E5]
            then ''This move helps control the center. '' else [])"
  using assms by (simp add: positional_context_def promotion_rank_def square_rank_def)

lemma positional_context_white_pawn:
  assumes "piece_at b (from_square m) = Some (Piece Pawn White)"
    and "square_rank (to_square m) = 6"
  shows "positional_context b m =
           (if to_square m \<in> set [D4, E4, D5, E5]
            then ''This move helps control the center. '' else [])
           @ ''This pawn is now one step away from promotion. ''"
  using assms by (simp add: positional_context_def promotion_rank_def)

lemma white_pawn_explanation:
  "fst (explain_move wht_collaborators empty_network wht_board (mv 40 48)) =
     Inr (MoveExplanation ''a7''
            ''The move a7 repositions your white pawn. This pawn is now one step away from promotion.''
            ''+350'' ''+350'')"
  by code_simp

text \<open>
  C9. The explanation of a pawn move to the rank before the promotion rank should
  hold the promotion clause, for either colour. Evaluated for the black pawn that
  moves from a3 to a2, the rank next to Black's promotion rank: the explanation is
  the reposition clause alone.
\<close>

theorem black_pawn_explanation:
  "piece_at blk_board (from_square (mv 16 8)) = Some (Piece Pawn Black)
   \<and> square_rank (to_square (mv 16 8)) = promotion_rank Black + 1
   \<and> fst (explain_move blk_collaborators empty_network blk_board (mv 16 8)) =
       Inr (MoveExplanation ''a2'' ''The move a2 repositions your black pawn.'' ''+350'' ''+350'')
   \<and> \<not> str_contains promotion_clause ''The move a2 repositions your black pawn.''"
  by code_simp

end
